theory Spec2Isabelle
  imports Main "HOL-Library.Monad_Syntax"
begin

section \<open>Strings, characters and positions\<close>

text \<open>
  The extension works on JavaScript strings. They are modelled as \<open>string\<close> (a list of
  8-bit characters), which covers every code unit the patterns of the source name explicitly
  (their widest class is \<open>\x80-\xff\<close>). An index into a string is a \<open>nat\<close>; a JavaScript
  index that may be \<open>-1\<close> is an \<open>int\<close>. A \<open>vscode.Position\<close> is represented by the
  offset it stands for (\<open>positionAt\<close> clamps an offset into the document and
  \<open>offsetAt\<close> reads it back), and a \<open>vscode.Location\<close> built from a position is the
  location of the empty range at that offset.
\<close>

definition isWordChar :: "char \<Rightarrow> bool" where
  \<comment> \<open>\<open>\w\<close>\<close>
  "isWordChar c =
     (let n = (of_char c :: nat)
      in (48 \<le> n \<and> n \<le> 57) \<or> (65 \<le> n \<and> n \<le> 90) \<or> n = 95 \<or> (97 \<le> n \<and> n \<le> 122))"

definition isSpace :: "char \<Rightarrow> bool" where
  \<comment> \<open>\<open>\s\<close>, and the characters \<open>trim\<close> removes\<close>
  "isSpace c = (let n = (of_char c :: nat) in (9 \<le> n \<and> n \<le> 13) \<or> n = 32 \<or> n = 160)"

definition isLineTerminator :: "char \<Rightarrow> bool" where
  "isLineTerminator c = (c = CHR 0x0A \<or> c = CHR 0x0D)"

definition isIdentStart :: "char \<Rightarrow> bool" where
  \<comment> \<open>\<open>[A-Za-z_\x80-\xff]\<close>\<close>
  "isIdentStart c =
     (let n = (of_char c :: nat)
      in (65 \<le> n \<and> n \<le> 90) \<or> n = 95 \<or> (97 \<le> n \<and> n \<le> 122) \<or> 128 \<le> n)"

definition isIdentChar :: "char \<Rightarrow> bool" where
  \<comment> \<open>\<open>[\w\x80-\xff]\<close>\<close>
  "isIdentChar c = (isWordChar c \<or> 128 \<le> (of_char c :: nat))"

definition isQualStart :: "char \<Rightarrow> bool" where
  \<comment> \<open>\<open>[\\A-Za-z_\x80-\xff]\<close>\<close>
  "isQualStart c = (c = CHR 0x5C \<or> isIdentStart c)"

definition isQualChar :: "char \<Rightarrow> bool" where
  \<comment> \<open>\<open>[\\\w\x80-\xff]\<close>\<close>
  "isQualChar c = (c = CHR 0x5C \<or> isIdentChar c)"

definition isDigit :: "char \<Rightarrow> bool" where
  "isDigit c = (let n = (of_char c :: nat) in 48 \<le> n \<and> n \<le> 57)"

definition isUpper :: "char \<Rightarrow> bool" where
  "isUpper c = (let n = (of_char c :: nat) in 65 \<le> n \<and> n \<le> 90)"

definition toLowerAscii :: "char \<Rightarrow> char" where
  "toLowerAscii c = (if isUpper c then char_of ((of_char c :: nat) + 32) else c)"

definition toUpperAscii :: "char \<Rightarrow> char" where
  "toUpperAscii c =
     (let n = (of_char c :: nat) in if 97 \<le> n \<and> n \<le> 122 then char_of (n - 32) else c)"

fun startsWith :: "string \<Rightarrow> string \<Rightarrow> bool" where
  "startsWith cs [] = True"
| "startsWith [] (x # xs) = False"
| "startsWith (c # cs) (x # xs) = (c = x \<and> startsWith cs xs)"

definition endsWith :: "string \<Rightarrow> string \<Rightarrow> bool" where
  "endsWith cs xs = startsWith (rev cs) (rev xs)"

fun findSub :: "string \<Rightarrow> string \<Rightarrow> nat \<Rightarrow> nat option" where
  "findSub sub [] i = (if sub = [] then Some i else None)"
| "findSub sub (c # cs) i = (if startsWith (c # cs) sub then Some i else findSub sub cs (i + 1))"

fun findLastSub :: "string \<Rightarrow> string \<Rightarrow> nat \<Rightarrow> nat option \<Rightarrow> nat option" where
  "findLastSub sub [] i acc = (if sub = [] then Some i else acc)"
| "findLastSub sub (c # cs) i acc =
     findLastSub sub cs (i + 1) (if startsWith (c # cs) sub then Some i else acc)"

definition indexOfFrom :: "string \<Rightarrow> string \<Rightarrow> nat \<Rightarrow> nat option" where
  \<comment> \<open>\<open>text.indexOf(sub, from)\<close>; \<open>None\<close> is \<open>-1\<close>\<close>
  "indexOfFrom text sub from =
     (let k = min from (length text) in findSub sub (drop k text) k)"

definition indexOf :: "string \<Rightarrow> string \<Rightarrow> nat option" where
  "indexOf text sub = indexOfFrom text sub 0"

definition lastIndexOf :: "string \<Rightarrow> string \<Rightarrow> nat option" where
  \<comment> \<open>\<open>text.lastIndexOf(sub)\<close>\<close>
  "lastIndexOf text sub = findLastSub sub text 0 None"

definition lastIndexOfFrom :: "string \<Rightarrow> string \<Rightarrow> nat \<Rightarrow> nat option" where
  \<comment> \<open>\<open>text.lastIndexOf(sub, from)\<close>: the last occurrence starting at or before \<open>from\<close>\<close>
  "lastIndexOfFrom text sub from = findLastSub sub (take (from + length sub) text) 0 None"

definition jsIndex :: "nat option \<Rightarrow> int" where
  "jsIndex r = (case r of None \<Rightarrow> - 1 | Some n \<Rightarrow> int n)"

definition jsIncludes :: "string \<Rightarrow> string \<Rightarrow> bool" where
  "jsIncludes text sub = (indexOf text sub \<noteq> None)"

definition sliceIdx :: "nat \<Rightarrow> int \<Rightarrow> nat" where
  \<comment> \<open>how \<open>slice\<close> reads one bound: negative counts from the end, then clamped\<close>
  "sliceIdx len a = (if a < 0 then nat (max 0 (int len + a)) else min (nat a) len)"

definition slice :: "string \<Rightarrow> int \<Rightarrow> int \<Rightarrow> string" where
  \<comment> \<open>\<open>text.slice(a, b)\<close>\<close>
  "slice text a b =
     (let from = sliceIdx (length text) a; to = sliceIdx (length text) b
      in take (to - from) (drop from text))"

definition sliceFrom :: "string \<Rightarrow> int \<Rightarrow> string" where
  \<comment> \<open>\<open>text.slice(a)\<close>\<close>
  "sliceFrom text a = drop (sliceIdx (length text) a) text"

definition trim :: "string \<Rightarrow> string" where
  "trim s = rev (dropWhile isSpace (rev (dropWhile isSpace s)))"

fun splitAcc :: "string \<Rightarrow> string \<Rightarrow> string \<Rightarrow> string list" where
  "splitAcc sep cur [] = [rev cur]"
| "splitAcc sep cur (c # cs) =
     (if sep \<noteq> [] \<and> startsWith (c # cs) sep
      then rev cur # splitAcc sep [] (drop (length sep - 1) cs)
      else splitAcc sep (c # cur) cs)"

definition split :: "string \<Rightarrow> string \<Rightarrow> string list" where
  \<comment> \<open>\<open>text.split(sep)\<close> for a non-empty separator string\<close>
  "split text sep = splitAcc sep [] text"

definition pop :: "string list \<Rightarrow> string" where
  \<comment> \<open>\<open>parts.pop()\<close> on the result of \<open>split\<close>, which is never empty\<close>
  "pop parts = (case rev parts of [] \<Rightarrow> [] | x # _ \<Rightarrow> x)"

section \<open>Regular expressions\<close>

text \<open>
  The source scans text with JavaScript regular expressions. The patterns it uses are built
  from character classes, sequences, alternatives, optional parts, greedy and lazy
  repetition of a character class, capture groups, \<open>^\<close>, \<open>$\<close> and \<open>\b\<close>. They are
  represented by the type \<open>regex\<close> and matched by a backtracking machine that tries the
  alternatives in the order ECMAScript prescribes: the machine works through a stack of
  frames, the part of the pattern that is still to be matched.
\<close>

type_synonym caps = "(nat \<times> (nat \<times> string)) list"

datatype regex =
    Cls "char \<Rightarrow> bool"
  | Eps
  | Seq regex regex
  | Alt regex regex
  | Star "char \<Rightarrow> bool"
  | Lazy "char \<Rightarrow> bool"
  | Group nat regex
  | Bol
  | BolM
  | Eol
  | WordB

datatype frame = Rx regex | Close nat nat string

datatype mstate = MState (sprev: "char option") (srest: string) (spos: nat) (scaps: caps)

datatype rmatch = Match (mindex: nat) (mtext: string) (mgroups: caps)

fun rweight :: "regex \<Rightarrow> nat" where
  "rweight (Seq a b) = rweight a + rweight b + 1"
| "rweight (Alt a b) = rweight a + rweight b + 1"
| "rweight (Group n a) = rweight a + 2"
| "rweight _ = 1"

fun fweight :: "frame \<Rightarrow> nat" where
  "fweight (Rx r) = rweight r"
| "fweight (Close n st txt) = 1"

definition wordBefore :: "char option \<Rightarrow> bool" where
  "wordBefore p = (case p of None \<Rightarrow> False | Some c \<Rightarrow> isWordChar c)"

definition wordAfter :: "string \<Rightarrow> bool" where
  "wordAfter cs = (case cs of [] \<Rightarrow> False | c # _ \<Rightarrow> isWordChar c)"

definition lineStart :: "char option \<Rightarrow> bool" where
  "lineStart p = (case p of None \<Rightarrow> True | Some c \<Rightarrow> isLineTerminator c)"

text \<open>
  \<open>run fs p cs i g\<close>: match the frames \<open>fs\<close> at index \<open>i\<close>, where \<open>cs\<close> is the text
  from \<open>i\<close> on, \<open>p\<close> the character before it and \<open>g\<close> the groups captured so far
  (the newest first). The result is the state after the first successful way of matching,
  in backtracking order.
\<close>

function run :: "frame list \<Rightarrow> char option \<Rightarrow> string \<Rightarrow> nat \<Rightarrow> caps \<Rightarrow> mstate option" where
  "run [] p cs i g = Some (MState p cs i g)"
| "run (Rx (Cls P) # fs) p [] i g = None"
| "run (Rx (Cls P) # fs) p (c # cs) i g = (if P c then run fs (Some c) cs (i + 1) g else None)"
| "run (Rx Eps # fs) p cs i g = run fs p cs i g"
| "run (Rx (Seq a b) # fs) p cs i g = run (Rx a # Rx b # fs) p cs i g"
| "run (Rx (Alt a b) # fs) p cs i g =
     (case run (Rx a # fs) p cs i g of
        Some r \<Rightarrow> Some r
      | None \<Rightarrow> run (Rx b # fs) p cs i g)"
| "run (Rx (Star P) # fs) p [] i g = run fs p [] i g"
| "run (Rx (Star P) # fs) p (c # cs) i g =
     (if P c
      then (case run (Rx (Star P) # fs) (Some c) cs (i + 1) g of
              Some r \<Rightarrow> Some r
            | None \<Rightarrow> run fs p (c # cs) i g)
      else run fs p (c # cs) i g)"
| "run (Rx (Lazy P) # fs) p [] i g = run fs p [] i g"
| "run (Rx (Lazy P) # fs) p (c # cs) i g =
     (case run fs p (c # cs) i g of
        Some r \<Rightarrow> Some r
      | None \<Rightarrow> (if P c then run (Rx (Lazy P) # fs) (Some c) cs (i + 1) g else None))"
| "run (Rx (Group n a) # fs) p cs i g = run (Rx a # Close n i cs # fs) p cs i g"
| "run (Close n st txt # fs) p cs i g = run fs p cs i ((n, (st, take (i - st) txt)) # g)"
| "run (Rx Bol # fs) p cs i g = (if i = 0 then run fs p cs i g else None)"
| "run (Rx BolM # fs) p cs i g = (if lineStart p then run fs p cs i g else None)"
| "run (Rx Eol # fs) p cs i g = (if cs = [] then run fs p cs i g else None)"
| "run (Rx WordB # fs) p cs i g =
     (if wordBefore p \<noteq> wordAfter cs then run fs p cs i g else None)"
  by pat_completeness auto
termination
  by (relation "inv_image (less_than <*lex*> less_than)
        (\<lambda>(fs, p, cs, i, g). (sum_list (map fweight fs), length cs))") auto

text \<open>
  \<open>execFrom\<close> looks for the leftmost index at or after \<open>i\<close> where the pattern matches.
\<close>

fun execFrom :: "regex \<Rightarrow> char option \<Rightarrow> string \<Rightarrow> nat \<Rightarrow> rmatch option" where
  "execFrom re p [] i =
     (case run [Rx re] p [] i [] of
        Some s \<Rightarrow> Some (Match i [] (scaps s))
      | None \<Rightarrow> None)"
| "execFrom re p (c # cs) i =
     (case run [Rx re] p (c # cs) i [] of
        Some s \<Rightarrow> Some (Match i (take (spos s - i) (c # cs)) (scaps s))
      | None \<Rightarrow> execFrom re (Some c) cs (i + 1))"

definition prevChar :: "string \<Rightarrow> nat \<Rightarrow> char option" where
  "prevChar text i = (if i = 0 then None else Some (text ! (i - 1)))"

definition exec :: "regex \<Rightarrow> string \<Rightarrow> nat \<Rightarrow> rmatch option" where
  \<comment> \<open>\<open>re.exec(text)\<close> with \<open>re.lastIndex = lastIndex\<close>; \<open>None\<close> is \<open>null\<close>\<close>
  "exec re text lastIndex =
     (if length text < lastIndex then None
      else execFrom re (prevChar text lastIndex) (drop lastIndex text) lastIndex)"

definition mend :: "rmatch \<Rightarrow> nat" where
  "mend m = mindex m + length (mtext m)"

definition matchFirst :: "regex \<Rightarrow> string \<Rightarrow> rmatch option" where
  \<comment> \<open>\<open>text.match(re)\<close> for a pattern without the \<open>g\<close> flag, and the first \<open>exec\<close>\<close>
  "matchFirst re text = exec re text 0"

definition test :: "regex \<Rightarrow> string \<Rightarrow> bool" where
  "test re text = (matchFirst re text \<noteq> None)"

definition grp :: "rmatch \<Rightarrow> nat \<Rightarrow> string" where
  \<comment> \<open>\<open>match[n]\<close>; a group that took no part reads as the empty string, which the source
      treats like \<open>undefined\<close> wherever it can occur\<close>
  "grp m n = (case map_of (mgroups m) n of None \<Rightarrow> [] | Some (st, t) \<Rightarrow> t)"

text \<open>
  The loop \<open>while ((match = re.exec(text))) { ... }\<close> of a pattern with the \<open>g\<close> flag
  collects the matches from left to right. \<open>exec\<close> leaves \<open>lastIndex\<close> at the end of the
  match; an empty match at \<open>lastIndex\<close> itself would be found again for ever, and the loop
  would not return: this is the result \<open>None\<close>.
\<close>

function execAllFrom :: "regex \<Rightarrow> string \<Rightarrow> nat \<Rightarrow> rmatch list option" where
  "execAllFrom re text lastIndex =
     (case exec re text lastIndex of
        None \<Rightarrow> Some []
      | Some m \<Rightarrow>
          (if lastIndex < mend m
           then map_option ((#) m) (execAllFrom re text (mend m))
           else None))"
  by pat_completeness auto
termination
  by (relation "measure (\<lambda>(re, text, lastIndex). Suc (length text) - lastIndex)")
     (auto simp: exec_def split: if_splits)

definition execAll :: "regex \<Rightarrow> string \<Rightarrow> rmatch list option" where
  "execAll re text = execAllFrom re text 0"

text \<open>
  \<open>text.replace(re, rep)\<close> replaces the first match when the pattern has no \<open>g\<close> flag,
  and every match when it has one; after an empty match the search moves on by one
  character. The replacement strings of the source contain no \<open>$\<close> pattern.
\<close>

definition replaceFirst :: "regex \<Rightarrow> string \<Rightarrow> string \<Rightarrow> string" where
  "replaceFirst re rep text =
     (case matchFirst re text of
        None \<Rightarrow> text
      | Some m \<Rightarrow> take (mindex m) text @ rep @ drop (mend m) text)"

function replaceAllFrom :: "regex \<Rightarrow> string \<Rightarrow> string \<Rightarrow> nat \<Rightarrow> string" where
  "replaceAllFrom re rep text lastIndex =
     (case exec re text lastIndex of
        None \<Rightarrow> drop lastIndex text
      | Some m \<Rightarrow>
          take (mindex m - lastIndex) (drop lastIndex text) @ rep @
          (if mtext m = []
           then take 1 (drop (mindex m) text) @ replaceAllFrom re rep text (mindex m + 1)
           else replaceAllFrom re rep text (mend m)))"
  by pat_completeness auto
termination
proof (relation "measure (\<lambda>(re, rep, text, lastIndex). Suc (length text) - lastIndex)")
  show "wf (measure (\<lambda>(re, rep, text, lastIndex). Suc (length text) - lastIndex))"
    by simp
next
  fix re :: regex and rep tx :: string and lastIndex :: nat and m :: rmatch
  assume ex: "exec re tx lastIndex = Some m"
  have idx: "execFrom r p cs i = Some m \<Longrightarrow> i \<le> mindex m" for r p cs i
  proof (induction cs arbitrary: p i)
    case Nil
    then show ?case by (auto split: option.splits)
  next
    case (Cons c cs)
    show ?case
    proof (cases "run [Rx r] p (c # cs) i []")
      case None
      with Cons.prems have "execFrom r (Some c) cs (i + 1) = Some m" by simp
      from Cons.IH [OF this] show ?thesis by simp
    next
      case (Some s)
      with Cons.prems show ?thesis by auto
    qed
  qed
  from ex have le: "lastIndex \<le> length tx"
    by (simp add: exec_def split: if_splits)
  from ex have ge: "lastIndex \<le> mindex m"
    by (auto simp: exec_def split: if_splits dest: idx)
  {
    assume "mtext m = []"
    from le ge
    show "((re, rep, tx, mindex m + 1), (re, rep, tx, lastIndex))
            \<in> measure (\<lambda>(re, rep, text, lastIndex). Suc (length text) - lastIndex)"
      by simp
  }
  {
    assume "mtext m \<noteq> []"
    with ge have "lastIndex < mend m"
      by (cases "mtext m") (simp_all add: mend_def)
    with le have "Suc (length tx) - mend m < Suc (length tx) - lastIndex"
      by arith
    then show "((re, rep, tx, mend m), (re, rep, tx, lastIndex))
            \<in> measure (\<lambda>(re, rep, text, lastIndex). Suc (length text) - lastIndex)"
      by simp
  }
qed

definition replaceAll :: "regex \<Rightarrow> string \<Rightarrow> string \<Rightarrow> string" where
  "replaceAll re rep text = replaceAllFrom re rep text 0"

subsection \<open>Building patterns\<close>

definition chr :: "char \<Rightarrow> regex" where
  "chr c = Cls (\<lambda>x. x = c)"

definition chri :: "char \<Rightarrow> regex" where
  \<comment> \<open>a literal character of a pattern with the \<open>i\<close> flag\<close>
  "chri c = Cls (\<lambda>x. toLowerAscii x = toLowerAscii c)"

fun seqs :: "regex list \<Rightarrow> regex" where
  "seqs [] = Eps"
| "seqs [r] = r"
| "seqs (r # rs) = Seq r (seqs rs)"

fun alts :: "regex list \<Rightarrow> regex" where
  "alts [] = Eps"
| "alts [r] = r"
| "alts (r # rs) = Alt r (alts rs)"

definition lit :: "string \<Rightarrow> regex" where
  "lit s = seqs (map chr s)"

definition liti :: "string \<Rightarrow> regex" where
  "liti s = seqs (map chri s)"

definition Plus :: "(char \<Rightarrow> bool) \<Rightarrow> regex" where
  \<comment> \<open>\<open>c+\<close> for a character class \<open>c\<close>\<close>
  "Plus P = Seq (Cls P) (Star P)"

definition Opt :: "regex \<Rightarrow> regex" where
  \<comment> \<open>\<open>r?\<close>: first with \<open>r\<close>, then without\<close>
  "Opt r = Alt r Eps"

definition anyChar :: "char \<Rightarrow> bool" where
  \<comment> \<open>\<open>[\s\S]\<close>\<close>
  "anyChar c = True"

definition notSpace :: "char \<Rightarrow> bool" where
  \<comment> \<open>\<open>[^\s]\<close>\<close>
  "notSpace c = (\<not> isSpace c)"

definition dotChar :: "char \<Rightarrow> bool" where
  \<comment> \<open>\<open>.\<close>\<close>
  "dotChar c = (\<not> isLineTerminator c)"

definition identRe :: regex where
  \<comment> \<open>\<open>[A-Za-z_\x80-\xff][\w\x80-\xff]*\<close>\<close>
  "identRe = Seq (Cls isIdentStart) (Star isIdentChar)"

definition qualRe :: regex where
  \<comment> \<open>\<open>[\\A-Za-z_\x80-\xff][\\\w\x80-\xff]*\<close>\<close>
  "qualRe = Seq (Cls isQualStart) (Star isQualChar)"

definition varRe :: regex where
  \<comment> \<open>\<open>\$[A-Za-z_\x80-\xff][\w\x80-\xff]*\<close>\<close>
  "varRe = Seq (chr CHR ''$'') identRe"

section \<open>Maps in insertion order\<close>

text \<open>
  A JavaScript \<open>Map\<close> (and an object used as a dictionary) is an association list in
  insertion order: \<open>set\<close> on a key that is present keeps its place, on a new key appends;
  \<open>delete\<close> removes the key. A \<open>Set\<close> is a list without duplicates, in insertion
  order.
\<close>

definition mapGet :: "('k \<times> 'v) list \<Rightarrow> 'k \<Rightarrow> 'v option" where
  "mapGet m k = map_of m k"

fun mapSet :: "('k \<times> 'v) list \<Rightarrow> 'k \<Rightarrow> 'v \<Rightarrow> ('k \<times> 'v) list" where
  "mapSet [] k v = [(k, v)]"
| "mapSet ((k', v') # m) k v = (if k' = k then (k, v) # m else (k', v') # mapSet m k v)"

definition mapDelete :: "('k \<times> 'v) list \<Rightarrow> 'k \<Rightarrow> ('k \<times> 'v) list" where
  "mapDelete m k = filter (\<lambda>e. fst e \<noteq> k) m"

definition setAdd :: "'a list \<Rightarrow> 'a \<Rightarrow> 'a list" where
  "setAdd xs x = (if x \<in> set xs then xs else xs @ [x])"

section \<open>Lexical scanner\<close>

fun braceLoop :: "string \<Rightarrow> nat \<Rightarrow> int \<Rightarrow> nat option" where
  "braceLoop [] i depth = None"
| "braceLoop (ch # cs) i depth =
     (if ch = CHR ''{'' then braceLoop cs (i + 1) (depth + 1)
      else if ch = CHR ''}'' then (if depth - 1 = 0 then Some i else braceLoop cs (i + 1) (depth - 1))
      else braceLoop cs (i + 1) depth)"

definition findMatchingBrace :: "string \<Rightarrow> nat \<Rightarrow> nat option" where
  \<comment> \<open>\<open>None\<close> is the result \<open>-1\<close>\<close>
  "findMatchingBrace text startIndex = braceLoop (drop startIndex text) startIndex 0"

definition namespaceRe :: regex where
  \<comment> \<open>\<open>/^\s*namespace\s+([^;{]+)\s*[;{]/m\<close>\<close>
  "namespaceRe = seqs [BolM, Star isSpace, lit ''namespace'', Plus isSpace,
     Group 1 (Plus (\<lambda>c. c \<noteq> CHR '';'' \<and> c \<noteq> CHR ''{'')), Star isSpace,
     Cls (\<lambda>c. c = CHR '';'' \<or> c = CHR ''{'')]"

definition getPhpNamespace :: "string \<Rightarrow> string" where
  "getPhpNamespace text =
     (case matchFirst namespaceRe text of None \<Rightarrow> [] | Some m \<Rightarrow> trim (grp m 1))"

definition backslash :: string where
  "backslash = [CHR 0x5C]"

definition leadingBackslashesRe :: regex where
  \<comment> \<open>\<open>/^\\+/\<close>\<close>
  "leadingBackslashesRe = Seq Bol (Plus (\<lambda>c. c = CHR 0x5C))"

definition useRe :: regex where
  \<comment> \<open>\<open>/^\s*use\s+([^;]+);/gm\<close>\<close>
  "useRe = seqs [BolM, Star isSpace, lit ''use'', Plus isSpace,
     Group 1 (Plus (\<lambda>c. c \<noteq> CHR '';'')), chr CHR '';'']"

definition asRe :: regex where
  \<comment> \<open>\<open>/^(.*)\s+as\s+([A-Za-z_\x80-\xff][\w\x80-\xff]*)$/i\<close>\<close>
  "asRe = seqs [Bol, Group 1 (Star dotChar), Plus isSpace, liti ''as'', Plus isSpace,
     Group 2 identRe, Eol]"

definition useAliasPart :: "(string \<times> string) list \<Rightarrow> string \<Rightarrow> (string \<times> string) list" where
  "useAliasPart mp part =
     (let asMatch = matchFirst asRe part;
          fqn = replaceFirst leadingBackslashesRe []
                  (trim (case asMatch of Some a \<Rightarrow> grp a 1 | None \<Rightarrow> part));
          alias = trim (case asMatch of Some a \<Rightarrow> grp a 2 | None \<Rightarrow> pop (split fqn backslash))
      in if alias \<noteq> [] \<and> fqn \<noteq> [] then mapSet mp alias fqn else mp)"

definition useAliasClause :: "(string \<times> string) list \<Rightarrow> rmatch \<Rightarrow> (string \<times> string) list" where
  "useAliasClause mp m =
     (let clause = trim (grp m 1)
      in if clause = [] then mp
         else if startsWith clause ''function '' \<or> startsWith clause ''const '' then mp
         else foldl useAliasPart mp (filter (\<lambda>p. p \<noteq> []) (map trim (split clause '','')))) "

definition parsePhpUseAliases :: "string \<Rightarrow> (string \<times> string) list option" where
  "parsePhpUseAliases text = map_option (foldl useAliasClause []) (execAll useRe text)"

definition extendsRe :: regex where
  \<comment> \<open>\<open>/\bextends\s+([\\A-Za-z_\x80-\xff][\\\w\x80-\xff]*)/i\<close>\<close>
  "extendsRe = seqs [WordB, liti ''extends'', Plus isSpace, Group 1 qualRe]"

definition implementsRe :: regex where
  \<comment> \<open>\<open>/\bimplements\s+([^{]+)$/i\<close>\<close>
  "implementsRe = seqs [WordB, liti ''implements'', Plus isSpace,
     Group 1 (Plus (\<lambda>c. c \<noteq> CHR ''{'')), Eol]"

definition braceTailRe :: regex where
  \<comment> \<open>\<open>/\s*\{.*$/\<close>\<close>
  "braceTailRe = seqs [Star isSpace, chr CHR ''{'', Star dotChar, Eol]"

definition parsePhpClassExtendsImplements :: "string \<Rightarrow> string list \<times> string list" where
  \<comment> \<open>the pair \<open>(extends, implements)\<close>\<close>
  "parsePhpClassExtendsImplements header =
     (let extendsList = (case matchFirst extendsRe header of
                           Some m \<Rightarrow> [trim (grp m 1)] | None \<Rightarrow> []);
          implementsList = (case matchFirst implementsRe header of
                              Some m \<Rightarrow>
                                map (\<lambda>s. trim (replaceFirst braceTailRe [] s))
                                  (filter (\<lambda>p. p \<noteq> []) (map trim (split (grp m 1) '','')))
                            | None \<Rightarrow> [])
      in (extendsList, implementsList))"

definition questionRe :: regex where
  \<comment> \<open>\<open>/^\?/\<close>\<close>
  "questionRe = Seq Bol (chr CHR ''?'')"

definition resolvePhpTypeTokenToFqn :: "string \<Rightarrow> string \<Rightarrow> (string \<times> string) list \<Rightarrow> string" where
  "resolvePhpTypeTokenToFqn token namespace useAliases =
     (let raw = trim token
      in if raw = [] then []
         else let cleaned = replaceFirst leadingBackslashesRe [] (replaceFirst questionRe [] raw)
              in if jsIncludes cleaned backslash then cleaned
                 else let aliased = (case mapGet useAliases cleaned of
                                       Some a \<Rightarrow> (if a \<noteq> [] then a else cleaned)
                                     | None \<Rightarrow> cleaned)
                      in if jsIncludes aliased backslash
                         then replaceFirst leadingBackslashesRe [] aliased
                         else if namespace \<noteq> [] then namespace @ backslash @ aliased
                         else aliased)"

definition findPhpDocblockBeforeOffset :: "string \<Rightarrow> int \<Rightarrow> string" where
  "findPhpDocblockBeforeOffset text offset =
     (let head = slice text 0 (max 0 offset)
      in case lastIndexOf head ''*/'' of
           None \<Rightarrow> []
         | Some e \<Rightarrow>
             (case lastIndexOfFrom head ''/**'' e of
                None \<Rightarrow> []
              | Some st \<Rightarrow>
                  (let between = sliceFrom head (int e + 2)
                   in if test (Cls notSpace) between then []
                      else slice head (int st) (int e + 2))))"

record docblockInfo =
  params :: "(string \<times> string) list"
  returns :: string

definition paramTagRe :: regex where
  \<comment> \<open>\<open>/@\s*(?:param|phpstan-param|psalm-param)\s+([^\s]+)\s+(\$[A-Za-z_\x80-\xff][\w\x80-\xff]*)/i\<close>\<close>
  "paramTagRe = seqs [chr CHR ''@'', Star isSpace,
     alts [liti ''param'', liti ''phpstan-param'', liti ''psalm-param''], Plus isSpace,
     Group 1 (Plus notSpace), Plus isSpace, Group 2 varRe]"

definition returnTagRe :: regex where
  \<comment> \<open>\<open>/@\s*(?:return|phpstan-return|psalm-return)\s+([^\s]+)/i\<close>\<close>
  "returnTagRe = seqs [chr CHR ''@'', Star isSpace,
     alts [liti ''return'', liti ''phpstan-return'', liti ''psalm-return''], Plus isSpace,
     Group 1 (Plus notSpace)]"

fun splitLinesAcc :: "string \<Rightarrow> string \<Rightarrow> string list" where
  "splitLinesAcc cur [] = [rev cur]"
| "splitLinesAcc cur [c] = (if c = CHR 0x0A then [rev cur, []] else [rev (c # cur)])"
| "splitLinesAcc cur (c # d # cs) =
     (if c = CHR 0x0D \<and> d = CHR 0x0A then rev cur # splitLinesAcc [] cs
      else if c = CHR 0x0A then rev cur # splitLinesAcc [] (d # cs)
      else splitLinesAcc (c # cur) (d # cs))"

definition splitLines :: "string \<Rightarrow> string list" where
  \<comment> \<open>\<open>text.split(/\r?\n/)\<close>\<close>
  "splitLines text = splitLinesAcc [] text"

definition docblockLine :: "docblockInfo \<Rightarrow> string \<Rightarrow> docblockInfo" where
  \<comment> \<open>the body of the loop over the lines of a doc comment\<close>
  "docblockLine result line =
     (let r1 = (case matchFirst paramTagRe line of
                  Some pm \<Rightarrow> result\<lparr>params := mapSet (params result) (grp pm 2) (grp pm 1)\<rparr>
                | None \<Rightarrow> result)
      in case matchFirst returnTagRe line of
           Some rm \<Rightarrow> (if returns r1 = [] then r1\<lparr>returns := grp rm 1\<rparr> else r1)
         | None \<Rightarrow> r1)"

definition parsePhpDocblock :: "string \<Rightarrow> docblockInfo" where
  "parsePhpDocblock docblock =
     (let result = \<lparr>params = [], returns = []\<rparr>
      in if docblock = [] then result else foldl docblockLine result (splitLines docblock))"

record splitState =
  parts :: "string list"
  current :: string
  depthParen :: nat
  depthBracket :: nat
  depthBrace :: nat
  inSingle :: bool
  inDouble :: bool
  escape :: bool

definition pushTrimmed :: "string list \<Rightarrow> string \<Rightarrow> string list" where
  "pushTrimmed ps cur = (let trimmed = trim cur in if trimmed \<noteq> [] then ps @ [trimmed] else ps)"

definition splitChar :: "splitState \<Rightarrow> char \<Rightarrow> splitState" where
  \<comment> \<open>the body of the loop over the characters of a parameter list\<close>
  "splitChar st ch =
     (if inSingle st \<or> inDouble st
      then (let st1 = st\<lparr>current := current st @ [ch]\<rparr>
            in if escape st1 then st1\<lparr>escape := False\<rparr>
               else if ch = CHR 0x5C then st1\<lparr>escape := True\<rparr>
               else (let st2 = (if inSingle st1 \<and> ch = CHR 0x27 then st1\<lparr>inSingle := False\<rparr> else st1)
                     in if inDouble st2 \<and> ch = CHR 0x22 then st2\<lparr>inDouble := False\<rparr> else st2))
      else if ch = CHR 0x27 then st\<lparr>inSingle := True, current := current st @ [ch]\<rparr>
      else if ch = CHR 0x22 then st\<lparr>inDouble := True, current := current st @ [ch]\<rparr>
      else (let st1 =
                  (if ch = CHR ''('' then st\<lparr>depthParen := depthParen st + 1\<rparr>
                   else if ch = CHR '')'' then st\<lparr>depthParen := depthParen st - 1\<rparr>
                   else if ch = CHR ''['' then st\<lparr>depthBracket := depthBracket st + 1\<rparr>
                   else if ch = CHR '']'' then st\<lparr>depthBracket := depthBracket st - 1\<rparr>
                   else if ch = CHR ''{'' then st\<lparr>depthBrace := depthBrace st + 1\<rparr>
                   else if ch = CHR ''}'' then st\<lparr>depthBrace := depthBrace st - 1\<rparr>
                   else st)
            in if ch = CHR '','' \<and> depthParen st1 = 0 \<and> depthBracket st1 = 0 \<and> depthBrace st1 = 0
               then st1\<lparr>parts := pushTrimmed (parts st1) (current st1), current := []\<rparr>
               else st1\<lparr>current := current st1 @ [ch]\<rparr>))"

definition splitPhpParameters :: "string \<Rightarrow> string list" where
  "splitPhpParameters paramList =
     (let st = foldl splitChar
                 \<lparr>parts = [], current = [], depthParen = 0, depthBracket = 0, depthBrace = 0,
                  inSingle = False, inDouble = False, escape = False\<rparr> paramList
      in pushTrimmed (parts st) (current st))"

record phpParameter =
  pname :: string
  ptype :: string
  variadic :: bool
  raw :: string

definition dotsRe :: regex where
  \<comment> \<open>\<open>/\.\.\./\<close>\<close>
  "dotsRe = lit ''...''"

definition ampersandRe :: regex where
  \<comment> \<open>\<open>/\s*&\s*/g\<close>\<close>
  "ampersandRe = seqs [Star isSpace, chr CHR ''&'', Star isSpace]"

definition parsePhpParameter :: "string \<Rightarrow> (string \<times> string) list \<Rightarrow> phpParameter option" where
  \<comment> \<open>\<open>None\<close> is \<open>null\<close>; \<open>split(/\s+/)[0]\<close> is the text before the first white space\<close>
  "parsePhpParameter paramText docParams =
     (let tx = trim paramText
      in if tx = [] then None
         else case matchFirst (Group 1 varRe) tx of
                None \<Rightarrow> None
              | Some nameMatch \<Rightarrow>
                  (let name = grp nameMatch 1;
                       beforeName = trim (slice tx 0 (int (mindex nameMatch)));
                       hasVariadic = test dotsRe beforeName;
                       cleanBefore = trim (replaceAll ampersandRe '' '' (replaceAll dotsRe [] beforeName));
                       typeText = (if cleanBefore \<noteq> [] then takeWhile notSpace cleanBefore else []);
                       docType = (case mapGet docParams name of Some t \<Rightarrow> t | None \<Rightarrow> []);
                       ty = (if typeText \<noteq> [] then typeText
                             else if docType \<noteq> [] then docType else ''mixed'')
                   in Some \<lparr>pname = name, ptype = ty, variadic = hasVariadic, raw = tx\<rparr>))"

record signature =
  label :: string
  documentation :: "string option"
  parameters :: "string list"

definition isReturnTypeChar :: "char \<Rightarrow> bool" where
  \<comment> \<open>\<open>[\\\w\x80-\xff|?]\<close>\<close>
  "isReturnTypeChar c = (isQualChar c \<or> c = CHR ''|'' \<or> c = CHR ''?'')"

definition signatureRe :: regex where
  \<comment> \<open>\<open>/\bfunction\s+&?\s*([A-Za-z_\x80-\xff][\w\x80-\xff]*)\s*\(([\s\S]*?)\)\s*(?::\s*([\\A-Za-z_\x80-\xff][\\\w\x80-\xff|?]+))?/\<close>\<close>
  "signatureRe = seqs [WordB, lit ''function'', Plus isSpace, Opt (chr CHR ''&''), Star isSpace,
     Group 1 identRe, Star isSpace, chr CHR ''('', Group 2 (Lazy anyChar), chr CHR '')'',
     Star isSpace,
     Opt (seqs [chr CHR '':'', Star isSpace, Group 3 (Seq (Cls isQualStart) (Plus isReturnTypeChar))])]"

definition formatParameter :: "phpParameter \<Rightarrow> string" where
  "formatParameter p =
     trim (replaceAll (Plus isSpace) '' ''
             (ptype p @ '' '' @ (if variadic p then ''...'' else []) @ pname p))"

fun joinWith :: "string \<Rightarrow> string list \<Rightarrow> string" where
  "joinWith sep [] = []"
| "joinWith sep [x] = x"
| "joinWith sep (x # xs) = x @ sep @ joinWith sep xs"

definition extractPhpFunctionSignatureNearOffset :: "string \<Rightarrow> int \<Rightarrow> signature option" where
  "extractPhpFunctionSignatureNearOffset text nameIndex =
     (let sliceStart = max 0 (nameIndex - 800);
          sliceEnd = min (int (length text)) (nameIndex + 800);
          window = slice text sliceStart sliceEnd;
          localIndex = nameIndex - sliceStart;
          head = slice window 0 (localIndex + 200)
      in case matchFirst signatureRe head of
           None \<Rightarrow> None
         | Some declMatch \<Rightarrow>
             (let fnName = grp declMatch 1;
                  paramList = grp declMatch 2;
                  returnTypeHint = trim (grp declMatch 3);
                  docblock = findPhpDocblockBeforeOffset text nameIndex;
                  doc = parsePhpDocblock docblock;
                  ps = List.map_filter (\<lambda>p. parsePhpParameter p (params doc))
                         (splitPhpParameters paramList);
                  returnType = (if returnTypeHint \<noteq> [] then returnTypeHint
                                else if returns doc \<noteq> [] then returns doc else ''mixed'');
                  formattedParams = map formatParameter ps
              in Some \<lparr>label = fnName @ ''('' @ joinWith '', '' formattedParams @ ''): '' @ returnType,
                       documentation = (if docblock \<noteq> [] then Some docblock else None),
                       parameters = map formatParameter ps\<rparr>))"

section \<open>Symbol extractor\<close>

record document =
  uri :: string
  languageId :: string
  getText :: string

datatype location = Location (luri: string) (lstart: nat) (lend: nat)

definition positionAt :: "document \<Rightarrow> int \<Rightarrow> nat" where
  \<comment> \<open>\<open>document.positionAt(offset)\<close>: the offset, clamped into the document\<close>
  "positionAt doc offset = nat (min (max 0 offset) (int (length (getText doc))))"

definition locationAt :: "document \<Rightarrow> int \<Rightarrow> location" where
  \<comment> \<open>\<open>new vscode.Location(document.uri, document.positionAt(index))\<close>\<close>
  "locationAt doc index = Location (uri doc) (positionAt doc index) (positionAt doc index)"

datatype symbolKind = KClass | KInterface | KEnum | KFunction | KMethod | KProperty | KConstant

text \<open>
  The objects stored under \<open>classInfo\<close> have two shapes: the full description of a class
  and \<open>{ containerName }\<close> for a member. A field the object does not have is the empty
  string, the empty list or \<open>None\<close>; the source tests these fields for truthiness only.
\<close>

record classInfo =
  fqn :: string
  shortName :: string
  ckind :: "symbolKind option"
  curi :: "string option"
  containerName :: string
  extendsFqns :: "string list"
  implementsFqns :: "string list"

definition memberInfo :: "string \<Rightarrow> classInfo" where
  \<comment> \<open>\<open>{ containerName: name }\<close>\<close>
  "memberInfo name = \<lparr>fqn = [], shortName = [], ckind = None, curi = None, containerName = name,
     extendsFqns = [], implementsFqns = []\<rparr>"

record symbol =
  key :: string
  location :: location
  kind :: symbolKind
  signature :: "signature option"
  classInfo :: "classInfo option"

record classRange =
  rname :: string
  rstart :: nat
  rend :: nat

definition classDeclRe :: regex where
  \<comment> \<open>\<open>/\b(?:abstract\s+|final\s+)?(class|interface|trait|enum)\s+([A-Za-z_\x80-\xff][\w\x80-\xff]*)\b/g\<close>\<close>
  "classDeclRe = seqs [WordB,
     Opt (Alt (Seq (lit ''abstract'') (Plus isSpace)) (Seq (lit ''final'') (Plus isSpace))),
     Group 1 (alts [lit ''class'', lit ''interface'', lit ''trait'', lit ''enum'']),
     Plus isSpace, Group 2 identRe, WordB]"

definition functionRe :: regex where
  \<comment> \<open>\<open>/\bfunction\s+&?\s*([A-Za-z_\x80-\xff][\w\x80-\xff]*)\s*\(/g\<close>, also \<open>methodRe\<close>\<close>
  "functionRe = seqs [WordB, lit ''function'', Plus isSpace, Opt (chr CHR ''&''), Star isSpace,
     Group 1 identRe, Star isSpace, chr CHR ''('']"

definition propRe :: regex where
  \<comment> \<open>\<open>/\b(?:public|protected|private|var)\s+(?:static\s+)?\$(\w+)\b/g\<close>\<close>
  "propRe = seqs [WordB, alts [lit ''public'', lit ''protected'', lit ''private'', lit ''var''],
     Plus isSpace, Opt (Seq (lit ''static'') (Plus isSpace)), chr CHR ''$'',
     Group 1 (Plus isWordChar), WordB]"

definition constRe :: regex where
  \<comment> \<open>\<open>/\bconst\s+([A-Za-z_\x80-\xff][\w\x80-\xff]*)\b/g\<close>\<close>
  "constRe = seqs [WordB, lit ''const'', Plus isSpace, Group 1 identRe, WordB]"

definition globalConstRe :: regex where
  \<comment> \<open>\<open>/\bconst\s+([A-Za-z_\x80-\xff][\w\x80-\xff]*)\s*=/g\<close>\<close>
  "globalConstRe = seqs [WordB, lit ''const'', Plus isSpace, Group 1 identRe, Star isSpace,
     chr CHR ''='']"

definition isQuote :: "char \<Rightarrow> bool" where
  \<comment> \<open>\<open>['"]\<close>\<close>
  "isQuote c = (c = CHR 0x27 \<or> c = CHR 0x22)"

definition defineRe :: regex where
  \<comment> \<open>\<open>/\bdefine\s*\(\s*['"]([A-Za-z0-9_]+)['"]/g\<close>\<close>
  "defineRe = seqs [WordB, lit ''define'', Star isSpace, chr CHR ''('', Star isSpace, Cls isQuote,
     Group 1 (Plus isWordChar), Cls isQuote]"

definition mkSymbol ::
  "string \<Rightarrow> location \<Rightarrow> symbolKind \<Rightarrow> signature option \<Rightarrow> classInfo option \<Rightarrow> symbol" where
  "mkSymbol k loc knd sig ci = \<lparr>key = k, location = loc, kind = knd, signature = sig, classInfo = ci\<rparr>"

definition methodSymbols ::
  "document \<Rightarrow> string \<Rightarrow> string \<Rightarrow> string \<Rightarrow> nat \<Rightarrow> rmatch \<Rightarrow> symbol list" where
  \<comment> \<open>the body of the loop over \<open>methodRe\<close> in a class body that starts at \<open>braceStart\<close>\<close>
  "methodSymbols doc namespace className classFqn braceStart m =
     (let methodName = grp m 1;
          methodIndex = int braceStart + int (mindex m) + jsIndex (lastIndexOf (mtext m) methodName);
          methodLoc = locationAt doc methodIndex;
          sig = extractPhpFunctionSignatureNearOffset (getText doc) methodIndex
      in mkSymbol (className @ ''::'' @ methodName) methodLoc KMethod sig (Some (memberInfo className)) #
         (if namespace \<noteq> []
          then [mkSymbol (classFqn @ ''::'' @ methodName) methodLoc KMethod sig (Some (memberInfo classFqn))]
          else []))"

definition propSymbols ::
  "document \<Rightarrow> string \<Rightarrow> string \<Rightarrow> string \<Rightarrow> nat \<Rightarrow> rmatch \<Rightarrow> symbol list" where
  "propSymbols doc namespace className classFqn braceStart m =
     (let propName = grp m 1;
          propIndex = int braceStart + int (mindex m) + jsIndex (lastIndexOf (mtext m) propName);
          propLoc = locationAt doc propIndex
      in [mkSymbol (className @ ''->$'' @ propName) propLoc KProperty None (Some (memberInfo className)),
          mkSymbol (className @ ''->'' @ propName) propLoc KProperty None (Some (memberInfo className))] @
         (if namespace \<noteq> []
          then [mkSymbol (classFqn @ ''->$'' @ propName) propLoc KProperty None (Some (memberInfo classFqn)),
                mkSymbol (classFqn @ ''->'' @ propName) propLoc KProperty None (Some (memberInfo classFqn))]
          else []))"

definition constSymbols ::
  "document \<Rightarrow> string \<Rightarrow> string \<Rightarrow> string \<Rightarrow> nat \<Rightarrow> rmatch \<Rightarrow> symbol list" where
  "constSymbols doc namespace className classFqn braceStart m =
     (let constName = grp m 1;
          constIndex = int braceStart + int (mindex m) + jsIndex (lastIndexOf (mtext m) constName);
          constLoc = locationAt doc constIndex
      in mkSymbol (className @ ''::'' @ constName) constLoc KConstant None (Some (memberInfo className)) #
         (if namespace \<noteq> []
          then [mkSymbol (classFqn @ ''::'' @ constName) constLoc KConstant None (Some (memberInfo classFqn))]
          else []))"

definition classDeclSymbols ::
  "document \<Rightarrow> string \<Rightarrow> rmatch \<Rightarrow> (classRange list \<times> symbol list) option" where
  \<comment> \<open>the body of the loop over \<open>classDeclRe\<close>: the range it adds to \<open>classRanges\<close> and the
      symbols it pushes; both are empty where the loop says \<open>continue\<close>\<close>
  "classDeclSymbols doc namespace m =
     (let tx = getText doc;
          className = grp m 2;
          classKeyword = grp m 1;
          nameIndex = int (mindex m) + jsIndex (lastIndexOf (mtext m) className);
          classLoc = locationAt doc nameIndex;
          classFqn = (if namespace \<noteq> [] then namespace @ backslash @ className else className);
          knd = (if classKeyword = ''interface'' then KInterface
                 else if classKeyword = ''enum'' then KEnum else KClass)
      in case indexOfFrom tx ''{'' (mindex m) of
           None \<Rightarrow> Some ([], [])
         | Some braceStart \<Rightarrow>
             (case findMatchingBrace tx braceStart of
                None \<Rightarrow> Some ([], [])
              | Some braceEnd \<Rightarrow>
                  do {
                    useAliases \<leftarrow> parsePhpUseAliases tx;
                    let header = slice tx (int (mindex m)) (int braceStart);
                    let classExt = parsePhpClassExtendsImplements header;
                    let info = \<lparr>fqn = classFqn, shortName = className, ckind = Some knd,
                                curi = Some (uri doc), containerName = [],
                                extendsFqns = map (\<lambda>t. resolvePhpTypeTokenToFqn t namespace useAliases)
                                                (fst classExt),
                                implementsFqns = map (\<lambda>t. resolvePhpTypeTokenToFqn t namespace useAliases)
                                                   (snd classExt)\<rparr>;
                    let classBody = slice tx (int braceStart) (int braceEnd + 1);
                    methodMatches \<leftarrow> execAll functionRe classBody;
                    propMatches \<leftarrow> execAll propRe classBody;
                    constMatches \<leftarrow> execAll constRe classBody;
                    Some ([\<lparr>rname = className, rstart = braceStart, rend = braceEnd\<rparr>],
                          mkSymbol className classLoc knd None (Some info) #
                          (if namespace \<noteq> [] then [mkSymbol classFqn classLoc knd None (Some info)] else []) @
                          concat (map (methodSymbols doc namespace className classFqn braceStart) methodMatches) @
                          concat (map (propSymbols doc namespace className classFqn braceStart) propMatches) @
                          concat (map (constSymbols doc namespace className classFqn braceStart) constMatches))
                  }))"

definition inClassRange :: "classRange list \<Rightarrow> rmatch \<Rightarrow> bool" where
  \<comment> \<open>\<open>classRanges.some((r) => match.index >= r.start && match.index <= r.end)\<close>\<close>
  "inClassRange classRanges m = (\<exists>r \<in> set classRanges. rstart r \<le> mindex m \<and> mindex m \<le> rend r)"

definition functionSymbols :: "document \<Rightarrow> string \<Rightarrow> rmatch \<Rightarrow> symbol list" where
  "functionSymbols doc namespace m =
     (let fnName = grp m 1;
          fnIndex = int (mindex m) + jsIndex (lastIndexOf (mtext m) fnName);
          fnLoc = locationAt doc fnIndex;
          sig = extractPhpFunctionSignatureNearOffset (getText doc) fnIndex
      in mkSymbol fnName fnLoc KFunction sig None #
         (if namespace \<noteq> [] then [mkSymbol (namespace @ backslash @ fnName) fnLoc KFunction sig None] else []))"

definition globalConstSymbols :: "document \<Rightarrow> string \<Rightarrow> rmatch \<Rightarrow> symbol list" where
  \<comment> \<open>the body of the loops over \<open>globalConstRe\<close> and over \<open>defineRe\<close>\<close>
  "globalConstSymbols doc namespace m =
     (let constName = grp m 1;
          constIndex = int (mindex m) + jsIndex (lastIndexOf (mtext m) constName);
          constLoc = locationAt doc constIndex
      in mkSymbol constName constLoc KConstant None None #
         (if namespace \<noteq> [] then [mkSymbol (namespace @ backslash @ constName) constLoc KConstant None None] else []))"

definition extractPhpSymbolsFromDocument :: "document \<Rightarrow> symbol list option" where
  "extractPhpSymbolsFromDocument doc =
     do {
       let tx = getText doc;
       let namespace = getPhpNamespace tx;
       classMatches \<leftarrow> execAll classDeclRe tx;
       classes \<leftarrow> those (map (classDeclSymbols doc namespace) classMatches);
       let classRanges = concat (map fst classes);
       functionMatches \<leftarrow> execAll functionRe tx;
       globalConstMatches \<leftarrow> execAll globalConstRe tx;
       defineMatches \<leftarrow> execAll defineRe tx;
       Some (concat (map snd classes) @
             concat (map (functionSymbols doc namespace)
                       (filter (\<lambda>m. \<not> inClassRange classRanges m) functionMatches)) @
             concat (map (globalConstSymbols doc namespace)
                       (filter (\<lambda>m. \<not> inClassRange classRanges m) globalConstMatches)) @
             concat (map (globalConstSymbols doc namespace) defineMatches))
     }"

section \<open>Workspace symbol index\<close>

record symbolInfo =
  infoUriKey :: string
  infoKind :: symbolKind
  infoContainerName :: string

record functionInfo =
  sigUriKey :: string
  sigSignature :: signature

record membersValue =
  methods :: "string list"
  properties :: "string list"
  constants :: "string list"

record membersCacheEntry =
  cachedVersion :: int
  cachedValue :: membersValue

text \<open>
  The module-level variables of the extension. The version counters are JavaScript numbers
  that only ever count up by one from \<open>0\<close> and \<open>-1\<close>; they are integers here.
\<close>

record workspace =
  phpWorkspaceIndex :: "(string \<times> location list) list"
  phpWorkspaceIndexKeysByUri :: "(string \<times> string list) list"
  phpWorkspaceIndexVersion :: int
  phpWorkspaceMembersCache :: "(string \<times> membersCacheEntry) list"
  phpWorkspaceSymbolInfo :: "(string \<times> symbolInfo list) list"
  phpWorkspaceClassInfoByFqn :: "(string \<times> classInfo) list"
  phpWorkspaceClassFqnsByShortName :: "(string \<times> string list) list"
  phpWorkspaceFunctionInfoByKey :: "(string \<times> functionInfo list) list"
  phpWorkspaceReferenceIndexBuilding :: bool
  phpWorkspaceReferenceIndex :: "(string \<times> location list) list"
  phpWorkspaceReferenceIndexVersion :: int

definition initialWorkspace :: workspace where
  "initialWorkspace =
     \<lparr>phpWorkspaceIndex = [], phpWorkspaceIndexKeysByUri = [], phpWorkspaceIndexVersion = 0,
      phpWorkspaceMembersCache = [], phpWorkspaceSymbolInfo = [], phpWorkspaceClassInfoByFqn = [],
      phpWorkspaceClassFqnsByShortName = [], phpWorkspaceFunctionInfoByKey = [],
      phpWorkspaceReferenceIndexBuilding = False, phpWorkspaceReferenceIndex = [],
      phpWorkspaceReferenceIndexVersion = - 1\<rparr>"

definition setOrDelete :: "('k \<times> 'v list) list \<Rightarrow> 'k \<Rightarrow> 'v list \<Rightarrow> ('k \<times> 'v list) list" where
  \<comment> \<open>\<open>if (filtered.length === 0) map.delete(key); else map.set(key, filtered);\<close>\<close>
  "setOrDelete m k filtered = (if filtered = [] then mapDelete m k else mapSet m k filtered)"

definition rebuildStep :: "(string \<times> string list) list \<Rightarrow> string \<times> classInfo \<Rightarrow> (string \<times> string list) list" where
  "rebuildStep byShort e =
     (if shortName (snd e) = [] then byShort
      else let list = (case mapGet byShort (shortName (snd e)) of Some l \<Rightarrow> l | None \<Rightarrow> [])
           in mapSet byShort (shortName (snd e)) (setAdd list (fst e)))"

definition rebuildPhpClassFqnMaps :: "workspace \<Rightarrow> workspace" where
  "rebuildPhpClassFqnMaps st =
     st\<lparr>phpWorkspaceClassFqnsByShortName := foldl rebuildStep [] (phpWorkspaceClassInfoByFqn st)\<rparr>"

definition deleteKey :: "string \<Rightarrow> workspace \<Rightarrow> string \<Rightarrow> workspace" where
  \<comment> \<open>the body of the loop over the keys of a file in \<open>deletePhpIndexForUri\<close>\<close>
  "deleteKey uriKey st k =
     (case mapGet (phpWorkspaceIndex st) k of
        None \<Rightarrow> st
      | Some locs \<Rightarrow>
          (let st1 = st\<lparr>phpWorkspaceIndex :=
                         setOrDelete (phpWorkspaceIndex st) k (filter (\<lambda>loc. luri loc \<noteq> uriKey) locs)\<rparr>;
               st2 = (case mapGet (phpWorkspaceSymbolInfo st1) k of
                        None \<Rightarrow> st1
                      | Some infoList \<Rightarrow>
                          st1\<lparr>phpWorkspaceSymbolInfo :=
                                setOrDelete (phpWorkspaceSymbolInfo st1) k
                                  (filter (\<lambda>info. infoUriKey info \<noteq> uriKey) infoList)\<rparr>)
           in case mapGet (phpWorkspaceFunctionInfoByKey st2) k of
                None \<Rightarrow> st2
              | Some sigList \<Rightarrow>
                  st2\<lparr>phpWorkspaceFunctionInfoByKey :=
                        setOrDelete (phpWorkspaceFunctionInfoByKey st2) k
                          (filter (\<lambda>info. sigUriKey info \<noteq> uriKey) sigList)\<rparr>))"

definition deletePhpIndexForUri :: "string \<Rightarrow> workspace \<Rightarrow> workspace" where
  "deletePhpIndexForUri uriKey st =
     (case mapGet (phpWorkspaceIndexKeysByUri st) uriKey of
        None \<Rightarrow> st
      | Some keys \<Rightarrow>
          (let st1 = foldl (deleteKey uriKey) st keys;
               st2 = st1\<lparr>phpWorkspaceIndexKeysByUri := mapDelete (phpWorkspaceIndexKeysByUri st1) uriKey,
                         phpWorkspaceClassInfoByFqn :=
                           filter (\<lambda>e. curi (snd e) \<noteq> Some uriKey) (phpWorkspaceClassInfoByFqn st1)\<rparr>;
               st3 = rebuildPhpClassFqnMaps st2
           in st3\<lparr>phpWorkspaceIndexVersion := phpWorkspaceIndexVersion st3 + 1\<rparr>))"

definition addSymbol :: "string \<Rightarrow> workspace \<times> string list \<Rightarrow> symbol \<Rightarrow> workspace \<times> string list" where
  \<comment> \<open>the body of the loop over the extracted symbols in \<open>updatePhpIndexForDocument\<close>; the
      second component is the set \<open>keys\<close>. Every symbol has a location and a kind (no
      \<open>vscode.SymbolKind\<close> in use is \<open>0\<close>).\<close>
  "addSymbol uriKey acc smb =
     (if key smb = [] then acc
      else
        (let st = fst acc;
             cur = (case mapGet (phpWorkspaceIndex st) (key smb) of Some l \<Rightarrow> l | None \<Rightarrow> []);
             st1 = st\<lparr>phpWorkspaceIndex := mapSet (phpWorkspaceIndex st) (key smb) (cur @ [location smb])\<rparr>;
             infoList = (case mapGet (phpWorkspaceSymbolInfo st1) (key smb) of Some l \<Rightarrow> l | None \<Rightarrow> []);
             st2 = st1\<lparr>phpWorkspaceSymbolInfo :=
                         mapSet (phpWorkspaceSymbolInfo st1) (key smb)
                           (infoList @ [\<lparr>infoUriKey = uriKey, infoKind = kind smb,
                                         infoContainerName =
                                           (case classInfo smb of Some ci \<Rightarrow> containerName ci | None \<Rightarrow> [])\<rparr>])\<rparr>;
             st3 = (case signature smb of
                      None \<Rightarrow> st2
                    | Some sig \<Rightarrow>
                        (let sigList = (case mapGet (phpWorkspaceFunctionInfoByKey st2) (key smb) of
                                          Some l \<Rightarrow> l | None \<Rightarrow> [])
                         in st2\<lparr>phpWorkspaceFunctionInfoByKey :=
                                  mapSet (phpWorkspaceFunctionInfoByKey st2) (key smb)
                                    (sigList @ [\<lparr>sigUriKey = uriKey, sigSignature = sig\<rparr>])\<rparr>));
             st4 = (case classInfo smb of
                      None \<Rightarrow> st3
                    | Some ci \<Rightarrow>
                        (if fqn ci \<noteq> []
                         then st3\<lparr>phpWorkspaceClassInfoByFqn := mapSet (phpWorkspaceClassInfoByFqn st3) (fqn ci) ci\<rparr>
                         else st3))
         in (st4, setAdd (snd acc) (key smb))))"

definition updatePhpIndexForDocument :: "document option \<Rightarrow> workspace \<Rightarrow> workspace option" where
  \<comment> \<open>\<open>None\<close> as a document is \<open>null\<close>; \<open>None\<close> as a result is a call that does not return\<close>
  "updatePhpIndexForDocument document st =
     (case document of
        None \<Rightarrow> Some st
      | Some doc \<Rightarrow>
          (if languageId doc \<noteq> ''php'' then Some st
           else
             do {
               let st1 = deletePhpIndexForUri (uri doc) st;
               symbols \<leftarrow> extractPhpSymbolsFromDocument doc;
               let acc = foldl (addSymbol (uri doc)) (st1, []) symbols;
               let st2 = (if snd acc \<noteq> []
                          then (fst acc)\<lparr>phpWorkspaceIndexKeysByUri :=
                                  mapSet (phpWorkspaceIndexKeysByUri (fst acc)) (uri doc) (snd acc)\<rparr>
                          else fst acc);
               let st3 = rebuildPhpClassFqnMaps st2;
               Some (st3\<lparr>phpWorkspaceIndexVersion := phpWorkspaceIndexVersion st3 + 1\<rparr>)
             }))"

subsection \<open>Members of a class\<close>

definition constantNameRe :: regex where
  \<comment> \<open>\<open>/^[A-Z_][A-Z0-9_]*$/\<close>\<close>
  "constantNameRe = seqs [Bol, Cls (\<lambda>c. isUpper c \<or> c = CHR ''_''),
     Star (\<lambda>c. isUpper c \<or> isDigit c \<or> c = CHR ''_''), Eol]"

definition dollarRe :: regex where
  \<comment> \<open>\<open>/^\$/\<close>\<close>
  "dollarRe = Seq Bol (chr CHR ''$'')"

fun insertBy :: "('a \<Rightarrow> 'a \<Rightarrow> int) \<Rightarrow> 'a \<Rightarrow> 'a list \<Rightarrow> 'a list" where
  "insertBy cmp x [] = [x]"
| "insertBy cmp x (y # ys) = (if cmp x y \<le> 0 then x # y # ys else y # insertBy cmp x ys)"

fun sortBy :: "('a \<Rightarrow> 'a \<Rightarrow> int) \<Rightarrow> 'a list \<Rightarrow> 'a list" where
  \<comment> \<open>\<open>Array.prototype.sort\<close> with a comparator: a stable sort\<close>
  "sortBy cmp [] = []"
| "sortBy cmp (x # xs) = insertBy cmp x (sortBy cmp xs)"

definition memberStep :: "string \<Rightarrow> string \<Rightarrow> membersValue \<Rightarrow> string \<Rightarrow> membersValue" where
  \<comment> \<open>the body of the loop over the keys of the index in \<open>getPhpMembersForClass\<close>; the three
      fields are the sets \<open>methods\<close>, \<open>properties\<close> and \<open>constants\<close>\<close>
  "memberStep classKey className acc normalizedKey =
     (let acc1 =
            (if startsWith normalizedKey (classKey @ ''::'') \<or> startsWith normalizedKey (className @ ''::'')
             then (let member = pop (split normalizedKey ''::'')
                   in if member \<noteq> []
                      then (if test constantNameRe member
                            then acc\<lparr>constants := setAdd (constants acc) member\<rparr>
                            else acc\<lparr>methods := setAdd (methods acc) member\<rparr>)
                      else acc)
             else acc)
      in if startsWith normalizedKey (classKey @ ''->$'') \<or> startsWith normalizedKey (className @ ''->$'')
            \<or> startsWith normalizedKey (classKey @ ''->'') \<or> startsWith normalizedKey (className @ ''->'')
         then (let member = (if jsIncludes normalizedKey ''->$'' then pop (split normalizedKey ''->$'')
                             else pop (split normalizedKey ''->''))
               in if member \<noteq> []
                  then acc1\<lparr>properties := setAdd (properties acc1) (replaceFirst dollarRe [] member)\<rparr>
                  else acc1)
         else acc1)"

definition computePhpMembers ::
  "(string \<Rightarrow> string \<Rightarrow> int) \<Rightarrow> (string \<times> location list) list \<Rightarrow> string \<Rightarrow> membersValue" where
  \<comment> \<open>what \<open>getPhpMembersForClass\<close> computes from the index when the cache does not answer;
      \<open>localeCompare\<close> is the comparison of the host\<close>
  "computePhpMembers localeCompare index classKey =
     (let className = pop (split classKey backslash);
          acc = foldl (memberStep classKey className) \<lparr>methods = [], properties = [], constants = []\<rparr>
                  (map fst index)
      in \<lparr>methods = sortBy localeCompare (methods acc),
          properties = sortBy localeCompare (properties acc),
          constants = sortBy localeCompare (constants acc)\<rparr>)"

definition getPhpMembersForClass ::
  "(string \<Rightarrow> string \<Rightarrow> int) \<Rightarrow> string \<Rightarrow> workspace \<Rightarrow> membersValue \<times> workspace" where
  "getPhpMembersForClass localeCompare classNameOrFqn st =
     (let classKey = replaceFirst leadingBackslashesRe [] classNameOrFqn
      in if classKey = [] then (\<lparr>methods = [], properties = [], constants = []\<rparr>, st)
         else
           (let compute =
                  (let v = computePhpMembers localeCompare (phpWorkspaceIndex st) classKey
                   in (v, st\<lparr>phpWorkspaceMembersCache :=
                               mapSet (phpWorkspaceMembersCache st) classKey
                                 \<lparr>cachedVersion = phpWorkspaceIndexVersion st, cachedValue = v\<rparr>\<rparr>))
            in case mapGet (phpWorkspaceMembersCache st) classKey of
                 Some cached \<Rightarrow>
                   (if cachedVersion cached = phpWorkspaceIndexVersion st then (cachedValue cached, st)
                    else compute)
               | None \<Rightarrow> compute))"

definition ensurePhpWorkspaceIndex :: "document option list \<Rightarrow> workspace \<Rightarrow> workspace option" where
  \<comment> \<open>the full scan, run to its end: \<open>files\<close> is what \<open>findFiles\<close> and
      \<open>openTextDocument\<close> give, \<open>None\<close> for a file that cannot be opened\<close>
  "ensurePhpWorkspaceIndex files st =
     foldl (\<lambda>acc f. case f of None \<Rightarrow> acc
                      | Some doc \<Rightarrow> Option.bind acc (updatePhpIndexForDocument (Some doc)))
       (Some st) files"

section \<open>Resolution engine\<close>

datatype referenceKind = Plain | Static | This | Object

record reference =
  refKind :: referenceKind
  word :: string
  classToken :: string
  member :: string

definition typeKeywordRe :: regex where
  \<comment> \<open>\<open>(class|interface|trait|enum)\<close>\<close>
  "typeKeywordRe = Group 1 (alts [lit ''class'', lit ''interface'', lit ''trait'', lit ''enum''])"

definition enclosingClassRe :: regex where
  \<comment> \<open>\<open>/\b(class|interface|trait|enum)\s+([A-Za-z_\x80-\xff][\w\x80-\xff]*)\b/g\<close>\<close>
  "enclosingClassRe = seqs [WordB, typeKeywordRe, Plus isSpace, Group 2 identRe, WordB]"

text \<open>
  The patterns built with \<open>new RegExp\<close> from an escaped name: \<open>escapeRegExp\<close> makes the
  name match literally.
\<close>

definition classNamedRe :: "string \<Rightarrow> regex" where
  \<comment> \<open>\<open>\b(class|interface|trait|enum)\s+NAME\b\<close>\<close>
  "classNamedRe name = seqs [WordB, typeKeywordRe, Plus isSpace, lit name, WordB]"

definition functionNamedRe :: "string \<Rightarrow> regex" where
  \<comment> \<open>\<open>\bfunction\s+&?\s*NAME\s*\(\<close>\<close>
  "functionNamedRe name = seqs [WordB, lit ''function'', Plus isSpace, Opt (chr CHR ''&''),
     Star isSpace, lit name, Star isSpace, chr CHR ''('']"

definition propertyNamedRe :: "string \<Rightarrow> regex" where
  \<comment> \<open>\<open>\b(?:public|protected|private|var)\s+(?:static\s+)?\$NAME\b\<close>\<close>
  "propertyNamedRe name = seqs [WordB,
     alts [lit ''public'', lit ''protected'', lit ''private'', lit ''var''], Plus isSpace,
     Opt (Seq (lit ''static'') (Plus isSpace)), chr CHR ''$'', lit name, WordB]"

definition constNamedRe :: "string \<Rightarrow> regex" where
  \<comment> \<open>\<open>\bconst\s+NAME\b\<close>\<close>
  "constNamedRe name = seqs [WordB, lit ''const'', Plus isSpace, lit name, WordB]"

definition findEnclosingPhpClassName :: "document \<Rightarrow> nat \<Rightarrow> string option option" where
  \<comment> \<open>the outer \<open>None\<close> is a call that does not return, the inner one \<open>undefined\<close>\<close>
  "findEnclosingPhpClassName doc position =
     do {
       let head = slice (getText doc) 0 (int position);
       ms \<leftarrow> execAll enclosingClassRe head;
       let last = foldl (\<lambda>l m. Some (grp m 2)) None ms;
       Some (case last of None \<Rightarrow> None | Some n \<Rightarrow> (if n = [] then None else Some n))
     }"

definition findPhpClassMemberRange :: "string \<Rightarrow> string \<Rightarrow> (nat \<times> nat) option" where
  \<comment> \<open>the pair \<open>(start, end)\<close>\<close>
  "findPhpClassMemberRange text className =
     (case matchFirst (classNamedRe className) text of
        None \<Rightarrow> None
      | Some m \<Rightarrow>
          (case indexOfFrom text ''{'' (mindex m) of
             None \<Rightarrow> None
           | Some braceStart \<Rightarrow>
               (case findMatchingBrace text braceStart of
                  None \<Rightarrow> None
                | Some braceEnd \<Rightarrow> Some (braceStart, braceEnd + 1))))"

definition resolvePhpClassTokenInDocument :: "string \<Rightarrow> string \<Rightarrow> string option" where
  "resolvePhpClassTokenInDocument text classTok =
     (if classTok = [] \<or> jsIncludes classTok backslash then Some classTok
      else map_option (\<lambda>uses. case mapGet uses classTok of
                                Some f \<Rightarrow> (if f \<noteq> [] then f else classTok)
                              | None \<Rightarrow> classTok)
             (parsePhpUseAliases text))"

definition firstMatchAt :: "document \<Rightarrow> nat \<Rightarrow> string \<Rightarrow> regex list \<Rightarrow> location option" where
  \<comment> \<open>the first of the patterns that matches in \<open>body\<close>, as a location at \<open>base\<close> plus
      the index of the match\<close>
  "firstMatchAt doc base body res =
     (case List.map_filter (\<lambda>re. matchFirst re body) res of
        [] \<Rightarrow> None
      | m # _ \<Rightarrow> Some (locationAt doc (int base + int (mindex m))))"

definition findLocalPhpDefinition :: "document \<Rightarrow> nat \<Rightarrow> reference \<Rightarrow> location option option" where
  \<comment> \<open>the outer \<open>None\<close> is a call that does not return, the inner one \<open>undefined\<close>\<close>
  "findLocalPhpDefinition doc position ref =
     (let tx = getText doc;
          namespace = getPhpNamespace tx;
          w = word ref
      in if w = [] then Some None
         else
           (let wordName = pop (split w backslash);
                plainSearch =
                  (case firstMatchAt doc 0 tx
                          [classNamedRe wordName, functionNamedRe wordName, constNamedRe wordName] of
                     Some loc \<Rightarrow> Some loc
                   | None \<Rightarrow>
                       (let fqnCandidate = (if namespace \<noteq> [] then namespace @ backslash @ w else w)
                        in firstMatchAt doc 0 tx [classNamedRe (pop (split fqnCandidate backslash))]))
            in if refKind ref = This
               then do {
                      enclosing \<leftarrow> findEnclosingPhpClassName doc position;
                      Some (case enclosing of
                              None \<Rightarrow> None
                            | Some className \<Rightarrow>
                                (case findPhpClassMemberRange tx className of
                                   None \<Rightarrow> None
                                 | Some r \<Rightarrow>
                                     firstMatchAt doc (fst r) (slice tx (int (fst r)) (int (snd r)))
                                       [functionNamedRe (member ref), propertyNamedRe (member ref),
                                        constNamedRe (member ref)]))
                    }
               else if refKind ref = Static
               then do {
                      resolved \<leftarrow> resolvePhpClassTokenInDocument tx (classToken ref);
                      let resolvedClass = (if resolved \<noteq> [] then resolved else classToken ref);
                      let className = pop (split resolvedClass backslash);
                      Some (if className = [] then None
                            else case (case findPhpClassMemberRange tx className of
                                         None \<Rightarrow> None
                                       | Some r \<Rightarrow>
                                           firstMatchAt doc (fst r) (slice tx (int (fst r)) (int (snd r)))
                                             [functionNamedRe (member ref), constNamedRe (member ref)]) of
                                   Some loc \<Rightarrow> Some loc
                                 | None \<Rightarrow> plainSearch)
                    }
               else Some plainSearch))"

definition toUpperCase :: "string \<Rightarrow> string option" where
  \<comment> \<open>\<open>s.toUpperCase()\<close>: the sharp s (\<open>0xDF\<close>) becomes \<open>SS\<close>; the capitals of the
      micro sign (\<open>0xB5\<close>) and of y with diaeresis (\<open>0xFF\<close>) are no 8-bit characters,
      and the result is \<open>None\<close>\<close>
  "toUpperCase s =
     (if CHR 0xB5 \<in> set s \<or> CHR 0xFF \<in> set s then None
      else Some (concat (map (\<lambda>c. let n = (of_char c :: nat)
                                    in if n = 223 then ''SS''
                                       else if 224 \<le> n \<and> n \<le> 254 \<and> n \<noteq> 247 then [char_of (n - 32)]
                                       else [toUpperAscii c]) s)))"

definition firstIndexed :: "(string \<times> location list) list \<Rightarrow> string list \<Rightarrow> location list option" where
  \<comment> \<open>\<open>for (const key of candidates) { const locs = index.get(key); if (locs && locs.length > 0) return locs; }\<close>\<close>
  "firstIndexed index candidates =
     (case List.map_filter (\<lambda>k. case mapGet index k of
                                   Some locs \<Rightarrow> (if locs \<noteq> [] then Some locs else None)
                                 | None \<Rightarrow> None) candidates of
        [] \<Rightarrow> None
      | locs # _ \<Rightarrow> Some locs)"

definition resolvePhpReferenceFromIndex ::
  "document \<Rightarrow> nat \<Rightarrow> reference \<Rightarrow> workspace \<Rightarrow> location list option option" where
  \<comment> \<open>a candidate key with a character outside the 8-bit range is no key of the index\<close>
  "resolvePhpReferenceFromIndex doc position ref st =
     (let index = phpWorkspaceIndex st;
          plainLookup = firstIndexed index [word ref, pop (split (word ref) backslash)]
      in if refKind ref = Static
         then do {
                resolved \<leftarrow> resolvePhpClassTokenInDocument (getText doc) (classToken ref);
                let resolvedClass = (if resolved \<noteq> [] then resolved else classToken ref);
                Some (case firstIndexed index
                             [resolvedClass @ ''::'' @ member ref,
                              pop (split resolvedClass backslash) @ ''::'' @ member ref] of
                        Some locs \<Rightarrow> Some locs
                      | None \<Rightarrow> plainLookup)
              }
         else if refKind ref = This
         then do {
                enclosing \<leftarrow> findEnclosingPhpClassName doc position;
                Some (case (case enclosing of
                              None \<Rightarrow> None
                            | Some className \<Rightarrow>
                                firstIndexed index
                                  ([className @ ''::'' @ member ref, className @ ''->$'' @ member ref,
                                    className @ ''->'' @ member ref]
                                   @ (case toUpperCase (member ref) of
                                        Some upper \<Rightarrow> [className @ ''::'' @ upper]
                                      | None \<Rightarrow> []))) of
                        Some locs \<Rightarrow> Some locs
                      | None \<Rightarrow> plainLookup)
              }
         else Some plainLookup)"

subsection \<open>The place under the cursor\<close>

text \<open>
  The position a provider is called with is a valid position of the document, an offset up
  to the length of the text. Its line begins after the last line terminator before the
  offset and ends before the next one; \<open>position.character\<close> is the offset within the
  line. \<open>getWordRangeAtPosition\<close> is the editor's: the range of the first match of the
  pattern in the line that begins at or before the position and ends at or after it; the
  source reads the text of the range only.
\<close>

definition lineStartOffset :: "string \<Rightarrow> nat \<Rightarrow> nat" where
  "lineStartOffset text position = position - length (takeWhile dotChar (rev (take position text)))"

definition lineTextAt :: "document \<Rightarrow> nat \<Rightarrow> string" where
  \<comment> \<open>\<open>document.lineAt(position.line).text\<close>\<close>
  "lineTextAt doc position =
     takeWhile dotChar (drop (lineStartOffset (getText doc) position) (getText doc))"

definition characterOf :: "document \<Rightarrow> nat \<Rightarrow> nat" where
  \<comment> \<open>\<open>position.character\<close>\<close>
  "characterOf doc position = position - lineStartOffset (getText doc) position"

definition getWordRangeAtPosition :: "document \<Rightarrow> nat \<Rightarrow> regex \<Rightarrow> string option option" where
  \<comment> \<open>\<open>document.getText(document.getWordRangeAtPosition(position, re))\<close>; the inner
      \<open>None\<close> is \<open>undefined\<close>, no word at the position\<close>
  "getWordRangeAtPosition doc position re =
     map_option
       (\<lambda>ms. case filter (\<lambda>m. mindex m \<le> characterOf doc position \<and> characterOf doc position \<le> mend m) ms of
                [] \<Rightarrow> None
              | m # _ \<Rightarrow> Some (mtext m))
       (execAll re (lineTextAt doc position))"

definition staticRe :: regex where
  \<comment> \<open>\<open>/([\\A-Za-z_\x80-\xff][\\\w\x80-\xff]*)\s*::\s*([A-Za-z_\x80-\xff][\w\x80-\xff]*)/g\<close>\<close>
  "staticRe = seqs [Group 1 qualRe, Star isSpace, lit ''::'', Star isSpace, Group 2 identRe]"

definition objectRe :: regex where
  \<comment> \<open>\<open>/(\$this|\$[A-Za-z_\x80-\xff][\w\x80-\xff]*)\s*->\s*([A-Za-z_\x80-\xff][\w\x80-\xff]*)/g\<close>\<close>
  "objectRe = seqs [Group 1 (Alt (lit ''$this'') varRe), Star isSpace, lit ''->'', Star isSpace,
     Group 2 identRe]"

definition memberAt :: "nat \<Rightarrow> rmatch \<Rightarrow> bool" where
  \<comment> \<open>\<open>offsetInLine >= memberStart && offsetInLine <= memberEnd\<close>\<close>
  "memberAt offsetInLine m =
     (let member = grp m 2;
          memberStart = int (mindex m) + jsIndex (lastIndexOf (mtext m) member);
          memberEnd = memberStart + int (length member)
      in memberStart \<le> int offsetInLine \<and> int offsetInLine \<le> memberEnd)"

definition getPhpReferenceAtPosition :: "document \<Rightarrow> nat \<Rightarrow> reference option option" where
  \<comment> \<open>the outer \<open>None\<close> is a call that does not return, the inner one \<open>undefined\<close>; a field
      the object does not have is the empty string\<close>
  "getPhpReferenceAtPosition doc position =
     do {
       range \<leftarrow> getWordRangeAtPosition doc position qualRe;
       (case range of
          None \<Rightarrow> Some None
        | Some rawWord \<Rightarrow>
            (if rawWord = [] then Some None
             else
               do {
                 let w = replaceFirst leadingBackslashesRe [] rawWord;
                 let line = lineTextAt doc position;
                 let offsetInLine = characterOf doc position;
                 staticMatches \<leftarrow> execAll staticRe line;
                 (case filter (memberAt offsetInLine) staticMatches of
                    m # _ \<Rightarrow>
                      Some (Some \<lparr>refKind = Static, word = w,
                                  classToken = replaceFirst leadingBackslashesRe [] (grp m 1),
                                  member = grp m 2\<rparr>)
                  | [] \<Rightarrow>
                      do {
                        objectMatches \<leftarrow> execAll objectRe line;
                        Some (Some (case filter (memberAt offsetInLine) objectMatches of
                                      m # _ \<Rightarrow>
                                        \<lparr>refKind = (if grp m 1 = ''$this'' then This else Object),
                                         word = w, classToken = [], member = grp m 2\<rparr>
                                    | [] \<Rightarrow> \<lparr>refKind = Plain, word = w, classToken = [], member = []\<rparr>))
                      })
               }))
     }"

subsection \<open>Route names\<close>

text \<open>
  The patterns for a quoted route name end with a back reference, \<open>(['"])([^'"]+)\1\<close>:
  group 1 holds one of the two quotes and \<open>\1\<close> stands for the quote it holds. This is
  the alternative of the pattern with the one quote at both places and the pattern with the
  other.
\<close>

definition apostrophe :: string where
  "apostrophe = [CHR 0x27]"

definition notQuote :: "char \<Rightarrow> bool" where
  \<comment> \<open>\<open>[^'"]\<close>\<close>
  "notQuote c = (c \<noteq> CHR 0x27 \<and> c \<noteq> CHR 0x22)"

definition quotedRe :: "regex list \<Rightarrow> regex" where
  \<comment> \<open>\<open>(['"])([^'"]+)\1\<close>, followed by \<open>rest\<close>\<close>
  "quotedRe rest =
     Alt (seqs ([Group 1 (chr CHR 0x27), Group 2 (Plus notQuote), chr CHR 0x27] @ rest))
         (seqs ([Group 1 (chr CHR 0x22), Group 2 (Plus notQuote), chr CHR 0x22] @ rest))"

definition routeCallPatterns :: "regex list" where
  \<comment> \<open>\<open>/\broute\s*\(\s*(['"])([^'"]+)\1/g\<close>, \<open>/\bto_route\s*\(\s*(['"])([^'"]+)\1/g\<close>
      and \<open>/->\s*route\s*\(\s*(['"])([^'"]+)\1/g\<close>\<close>
  "routeCallPatterns =
     [seqs [WordB, lit ''route'', Star isSpace, chr CHR ''('', Star isSpace, quotedRe []],
      seqs [WordB, lit ''to_route'', Star isSpace, chr CHR ''('', Star isSpace, quotedRe []],
      seqs [lit ''->'', Star isSpace, lit ''route'', Star isSpace, chr CHR ''('', Star isSpace,
            quotedRe []]]"

definition routeNameAt :: "nat \<Rightarrow> rmatch \<Rightarrow> bool" where
  \<comment> \<open>\<open>offsetInLine >= nameStart && offsetInLine <= nameEnd\<close>\<close>
  "routeNameAt offsetInLine m =
     (let quote = grp m 1;
          name = grp m 2;
          nameStart = int (mindex m) + jsIndex (lastIndexOf (mtext m) quote) + 1;
          nameEnd = nameStart + int (length name)
      in nameStart \<le> int offsetInLine \<and> int offsetInLine \<le> nameEnd)"

definition getLaravelRouteNameAtPosition :: "document \<Rightarrow> nat \<Rightarrow> string option" where
  \<comment> \<open>\<open>None\<close> is a call that does not return; no route name is the empty string\<close>
  "getLaravelRouteNameAtPosition doc position =
     (let line = lineTextAt doc position;
          offsetInLine = characterOf doc position
      in map_option
           (\<lambda>matches. case filter (routeNameAt offsetInLine) (concat matches) of
                         [] \<Rightarrow> []
                       | m # _ \<Rightarrow> grp m 2)
           (those (map (\<lambda>re. execAll re line) routeCallPatterns)))"

text \<open>
  The route index has variables of its own. A route file is a PHP document whose path has
  a directory \<open>routes\<close> above the file; \<open>uri.fsPath\<close> is the editor's, here for the URI of
  a file on a system whose paths are written with \<open>/\<close>.
\<close>

record routes =
  laravelRouteIndex :: "(string \<times> location list) list"
  laravelRouteIndexKeysByUri :: "(string \<times> string list) list"
  laravelRouteIndexVersion :: int

definition initialRoutes :: routes where
  "initialRoutes = \<lparr>laravelRouteIndex = [], laravelRouteIndexKeysByUri = [], laravelRouteIndexVersion = 0\<rparr>"

definition fsPath :: "string \<Rightarrow> string" where
  "fsPath u = (if startsWith u ''file://'' then drop 7 u else u)"

definition routeFileRe :: regex where
  \<comment> \<open>\<open>/\/routes\/.*\.php$/i\<close>\<close>
  "routeFileRe = seqs [liti ''/routes/'', Star dotChar, liti ''.php'', Eol]"

definition isLaravelRouteDocument :: "document \<Rightarrow> bool" where
  "isLaravelRouteDocument doc =
     (let filePath = fsPath (uri doc)
      in filePath \<noteq> [] \<and> test routeFileRe (replaceAll (chr CHR 0x5C) ''/'' filePath))"

definition routeNamePatterns :: "regex list" where
  \<comment> \<open>\<open>/->\s*name\s*\(\s*(['"])([^'"]+)\1\s*\)/g\<close> and
      \<open>/\bRoute::\s*name\s*\(\s*(['"])([^'"]+)\1\s*\)/g\<close>\<close>
  "routeNamePatterns =
     [seqs [lit ''->'', Star isSpace, lit ''name'', Star isSpace, chr CHR ''('', Star isSpace,
            quotedRe [Star isSpace, chr CHR '')'']],
      seqs [WordB, lit ''Route::'', Star isSpace, lit ''name'', Star isSpace, chr CHR ''('', Star isSpace,
            quotedRe [Star isSpace, chr CHR '')'']]]"

fun routeNameLoop :: "document \<Rightarrow> (string \<times> location) list \<Rightarrow> rmatch list \<Rightarrow> (string \<times> location) list" where
  \<comment> \<open>the loop over the matches of one pattern; the range runs from the position of the
      name to \<open>name.length\<close> characters further in its line\<close>
  "routeNameLoop doc results [] = results"
| "routeNameLoop doc results (m # ms) =
     (let name = grp m 2
      in if name = [] then routeNameLoop doc results ms
         else (let nameIndex = int (mindex m) + jsIndex (indexOf (mtext m) name);
                   pos = positionAt doc nameIndex;
                   r1 = results @ [(name, Location (uri doc) pos (pos + length name))]
               in if 800 \<le> length r1 then r1 else routeNameLoop doc r1 ms))"

definition extractLaravelRouteNamesFromDocument :: "document \<Rightarrow> (string \<times> location) list option" where
  "extractLaravelRouteNamesFromDocument doc =
     do {
       matches \<leftarrow> those (map (\<lambda>re. execAll re (getText doc)) routeNamePatterns);
       Some (foldl (routeNameLoop doc) [] matches)
     }"

definition deleteRouteKey :: "string \<Rightarrow> routes \<Rightarrow> string \<Rightarrow> routes" where
  \<comment> \<open>the body of the loop over the keys of a file in \<open>deleteLaravelRouteIndexForUri\<close>\<close>
  "deleteRouteKey uriKey rs k =
     (case mapGet (laravelRouteIndex rs) k of
        None \<Rightarrow> rs
      | Some locs \<Rightarrow>
          rs\<lparr>laravelRouteIndex :=
               setOrDelete (laravelRouteIndex rs) k (filter (\<lambda>loc. luri loc \<noteq> uriKey) locs)\<rparr>)"

definition deleteLaravelRouteIndexForUri :: "string \<Rightarrow> routes \<Rightarrow> routes" where
  "deleteLaravelRouteIndexForUri uriKey rs =
     (case mapGet (laravelRouteIndexKeysByUri rs) uriKey of
        None \<Rightarrow> rs
      | Some keys \<Rightarrow>
          (let rs1 = foldl (deleteRouteKey uriKey) rs keys
           in rs1\<lparr>laravelRouteIndexKeysByUri := mapDelete (laravelRouteIndexKeysByUri rs1) uriKey,
                  laravelRouteIndexVersion := laravelRouteIndexVersion rs1 + 1\<rparr>))"

definition addRouteName :: "routes \<times> string list \<Rightarrow> string \<times> location \<Rightarrow> routes \<times> string list" where
  \<comment> \<open>the body of the loop over the extracted names in \<open>updateLaravelRouteIndexForDocument\<close>;
      the second component is the set \<open>keys\<close>\<close>
  "addRouteName acc e =
     (let rs = fst acc;
          current = (case mapGet (laravelRouteIndex rs) (fst e) of Some l \<Rightarrow> l | None \<Rightarrow> [])
      in (rs\<lparr>laravelRouteIndex := mapSet (laravelRouteIndex rs) (fst e) (current @ [snd e])\<rparr>,
          setAdd (snd acc) (fst e)))"

definition updateLaravelRouteIndexForDocument :: "document option \<Rightarrow> routes \<Rightarrow> routes option" where
  \<comment> \<open>\<open>None\<close> as a document is \<open>null\<close>; \<open>None\<close> as a result is a call that does not return\<close>
  "updateLaravelRouteIndexForDocument document rs =
     (case document of
        None \<Rightarrow> Some rs
      | Some doc \<Rightarrow>
          (if languageId doc \<noteq> ''php'' then Some rs
           else if \<not> isLaravelRouteDocument doc then Some rs
           else
             do {
               let rs1 = deleteLaravelRouteIndexForUri (uri doc) rs;
               extracted \<leftarrow> extractLaravelRouteNamesFromDocument doc;
               let acc = foldl addRouteName (rs1, []) extracted;
               let rs2 = (if snd acc \<noteq> []
                          then (fst acc)\<lparr>laravelRouteIndexKeysByUri :=
                                  mapSet (laravelRouteIndexKeysByUri (fst acc)) (uri doc) (snd acc)\<rparr>
                          else fst acc);
               Some (rs2\<lparr>laravelRouteIndexVersion := laravelRouteIndexVersion rs2 + 1\<rparr>)
             }))"

definition ensureLaravelRouteIndex :: "document option list \<Rightarrow> routes \<Rightarrow> routes option" where
  \<comment> \<open>the scan of the route files, run to its end: \<open>routeFiles\<close> is what \<open>findFiles\<close> and
      \<open>openTextDocument\<close> give, \<open>None\<close> for a file that cannot be opened\<close>
  "ensureLaravelRouteIndex routeFiles rs =
     foldl (\<lambda>acc f. case f of None \<Rightarrow> acc
                      | Some doc \<Rightarrow> Option.bind acc (updateLaravelRouteIndexForDocument (Some doc)))
       (Some rs) routeFiles"

subsection \<open>The definition provider\<close>

datatype definitionResult = NoDefinition | OneLocation location | Locations "location list"

definition routeLocations :: "document option list \<Rightarrow> string \<Rightarrow> routes \<Rightarrow> (location list \<times> routes) option" where
  \<comment> \<open>\<open>if (routeName) { await ensureLaravelRouteIndex(); const locs = laravelRouteIndex.get(routeName); ... }\<close>:
      the locations of the route name, empty when there is none\<close>
  "routeLocations routeFiles routeName rs =
     (if routeName = [] then Some ([], rs)
      else map_option
             (\<lambda>rs1. (case mapGet (laravelRouteIndex rs1) routeName of Some locs \<Rightarrow> locs | None \<Rightarrow> [], rs1))
             (ensureLaravelRouteIndex routeFiles rs))"

definition provideDefinition ::
  "document option list \<Rightarrow> document option list \<Rightarrow> document \<Rightarrow> nat \<Rightarrow> routes \<Rightarrow> workspace
     \<Rightarrow> (definitionResult \<times> routes \<times> workspace) option" where
  \<comment> \<open>\<open>routeFiles\<close> and \<open>files\<close> are the files the scans for route files and for PHP files
      read; the result comes with the variables of the two indexes as the call leaves them\<close>
  "provideDefinition routeFiles files doc position rs st =
     do {
       routeName \<leftarrow> getLaravelRouteNameAtPosition doc position;
       hit \<leftarrow> routeLocations routeFiles routeName rs;
       (if fst hit \<noteq> [] then Some (Locations (fst hit), snd hit, st)
        else
          do {
            reference \<leftarrow> getPhpReferenceAtPosition doc position;
            (case reference of
               None \<Rightarrow> Some (NoDefinition, snd hit, st)
             | Some r \<Rightarrow>
                 do {
                   local \<leftarrow> findLocalPhpDefinition doc position r;
                   (case local of
                      Some loc \<Rightarrow> Some (OneLocation loc, snd hit, st)
                    | None \<Rightarrow>
                        do {
                          st1 \<leftarrow> ensurePhpWorkspaceIndex files st;
                          resolved \<leftarrow> resolvePhpReferenceFromIndex doc position r st1;
                          Some (case resolved of
                                  Some locs \<Rightarrow>
                                    (if locs \<noteq> [] then (Locations locs, snd hit, st1)
                                     else (NoDefinition, snd hit, st1))
                                | None \<Rightarrow> (NoDefinition, snd hit, st1))
                        })
                 })
          })
     }"

subsection \<open>Local type inference\<close>

definition docVarRe :: regex where
  \<comment> \<open>\<open>/\/\*\*[\s\S]*?\*\/\s*\$([A-Za-z_\x80-\xff][\w\x80-\xff]*)/g\<close>\<close>
  "docVarRe = seqs [lit ''/**'', Lazy anyChar, lit ''*/'', Star isSpace, chr CHR ''$'', Group 1 identRe]"

definition assignRe :: regex where
  \<comment> \<open>\<open>/(\$[A-Za-z_\x80-\xff][\w\x80-\xff]*)\s*=\s*([^;]+);/g\<close>\<close>
  "assignRe = seqs [Group 1 varRe, Star isSpace, chr CHR ''='', Star isSpace,
     Group 2 (Plus (\<lambda>c. c \<noteq> CHR '';'')), chr CHR '';'']"

definition newRe :: regex where
  \<comment> \<open>\<open>/^new\s+([\\A-Za-z_\x80-\xff][\\\w\x80-\xff]*)/\<close>\<close>
  "newRe = seqs [Bol, lit ''new'', Plus isSpace, Group 1 qualRe]"

definition arrayLiteralRe :: regex where
  \<comment> \<open>\<open>/^\[.*\]$/\<close>\<close>
  "arrayLiteralRe = seqs [Bol, chr CHR ''['', Star dotChar, chr CHR '']'', Eol]"

definition arrayCallRe :: regex where
  \<comment> \<open>\<open>/^array\s*\(/i\<close>\<close>
  "arrayCallRe = seqs [Bol, liti ''array'', Star isSpace, chr CHR ''('']"

definition boolRe :: regex where
  \<comment> \<open>\<open>/^(true|false)$/i\<close>\<close>
  "boolRe = seqs [Bol, Group 1 (Alt (liti ''true'') (liti ''false'')), Eol]"

definition nullRe :: regex where
  \<comment> \<open>\<open>/^null$/i\<close>\<close>
  "nullRe = seqs [Bol, liti ''null'', Eol]"

definition intRe :: regex where
  \<comment> \<open>\<open>/^[0-9]+$/\<close>\<close>
  "intRe = seqs [Bol, Plus isDigit, Eol]"

definition floatRe :: regex where
  \<comment> \<open>\<open>/^[0-9]+\.[0-9]+$/\<close>\<close>
  "floatRe = seqs [Bol, Plus isDigit, chr CHR ''.'', Plus isDigit, Eol]"

definition closureRe :: regex where
  \<comment> \<open>\<open>/^function\s*\(/\<close>\<close>
  "closureRe = seqs [Bol, lit ''function'', Star isSpace, chr CHR ''('']"

definition arrowFnRe :: regex where
  \<comment> \<open>\<open>/^fn\s*\(/\<close>\<close>
  "arrowFnRe = seqs [Bol, lit ''fn'', Star isSpace, chr CHR ''('']"

definition wholeVarRe :: regex where
  \<comment> \<open>\<open>/^(\$[A-Za-z_\x80-\xff][\w\x80-\xff]*)$/\<close>\<close>
  "wholeVarRe = seqs [Bol, Group 1 varRe, Eol]"

definition staticCallExprRe :: regex where
  \<comment> \<open>\<open>/^([\\A-Za-z_\x80-\xff][\\\w\x80-\xff]*)\s*::\s*([A-Za-z_\x80-\xff][\w\x80-\xff]*)\s*\(/\<close>\<close>
  "staticCallExprRe = seqs [Bol, Group 1 qualRe, Star isSpace, lit ''::'', Star isSpace,
     Group 2 identRe, Star isSpace, chr CHR ''('']"

definition fnCallExprRe :: regex where
  \<comment> \<open>\<open>/^([A-Za-z_\x80-\xff][\w\x80-\xff]*)\s*\(/\<close>\<close>
  "fnCallExprRe = seqs [Bol, Group 1 identRe, Star isSpace, chr CHR ''('']"

definition labelReturnRe :: regex where
  \<comment> \<open>\<open>/\)\s*:\s*([^\s]+)\s*$/\<close>\<close>
  "labelReturnRe = seqs [chr CHR '')'', Star isSpace, chr CHR '':'', Star isSpace,
     Group 1 (Plus notSpace), Star isSpace, Eol]"

definition returnTypeOfKeys ::
  "(string \<times> functionInfo list) list \<Rightarrow> string \<Rightarrow> (string \<times> string) list \<Rightarrow> string list \<Rightarrow> string option" where
  \<comment> \<open>the loop over candidate keys: the return type read off the label of the first
      signature of the first key that has one with a return type\<close>
  "returnTypeOfKeys sigs namespace useAliases keys =
     (case List.map_filter
             (\<lambda>k. case mapGet sigs k of
                     None \<Rightarrow> None
                   | Some [] \<Rightarrow> None
                   | Some (sg # _) \<Rightarrow>
                       (case matchFirst labelReturnRe (label (sigSignature sg)) of
                          None \<Rightarrow> None
                        | Some rm \<Rightarrow> Some (resolvePhpTypeTokenToFqn (grp rm 1) namespace useAliases)))
             keys of
        [] \<Rightarrow> None
      | t # _ \<Rightarrow> Some t)"

definition inferPhpTypeFromExpression ::
  "(string \<times> functionInfo list) list \<Rightarrow> string \<Rightarrow> string \<Rightarrow> (string \<times> string) list
     \<Rightarrow> (string \<times> string) list \<Rightarrow> string" where
  \<comment> \<open>\<open>sigs\<close> is \<open>phpWorkspaceFunctionInfoByKey\<close>\<close>
  "inferPhpTypeFromExpression sigs expr namespace useAliases existingVarTypes =
     (let tx = trim expr;
          newMatch = (if startsWith tx ''new '' then matchFirst newRe tx else None);
          varMatch = matchFirst wholeVarRe tx;
          varType = (case varMatch of
                       None \<Rightarrow> []
                     | Some vm \<Rightarrow> (case mapGet existingVarTypes (grp vm 1) of Some t \<Rightarrow> t | None \<Rightarrow> []));
          staticType =
            (case matchFirst staticCallExprRe tx of
               None \<Rightarrow> None
             | Some sm \<Rightarrow>
                 (let resolvedClass = resolvePhpTypeTokenToFqn (grp sm 1) namespace useAliases;
                      classShort = pop (split resolvedClass backslash)
                  in returnTypeOfKeys sigs namespace useAliases
                       [resolvedClass @ ''::'' @ grp sm 2, classShort @ ''::'' @ grp sm 2]));
          fnType =
            (case matchFirst fnCallExprRe tx of
               None \<Rightarrow> None
             | Some fm \<Rightarrow>
                 returnTypeOfKeys sigs namespace useAliases
                   (filter (\<lambda>k. k \<noteq> [])
                      [if namespace \<noteq> [] then namespace @ backslash @ grp fm 1 else [], grp fm 1]))
      in if tx = [] then []
         else if newMatch \<noteq> None
         then (case newMatch of Some nm \<Rightarrow> resolvePhpTypeTokenToFqn (grp nm 1) namespace useAliases
               | None \<Rightarrow> [])
         else if test arrayLiteralRe tx \<or> test arrayCallRe tx then ''array''
         else if test boolRe tx then ''bool''
         else if test nullRe tx then ''null''
         else if test intRe tx then ''int''
         else if test floatRe tx then ''float''
         else if (startsWith tx [CHR 0x27] \<and> endsWith tx [CHR 0x27])
                 \<or> (startsWith tx [CHR 0x22] \<and> endsWith tx [CHR 0x22]) then ''string''
         else if test closureRe tx \<or> test arrowFnRe tx then ''Closure''
         else if varType \<noteq> [] then varType
         else (case staticType of
                 Some t \<Rightarrow> t
               | None \<Rightarrow> (case fnType of Some t \<Rightarrow> t | None \<Rightarrow> [])))"

definition docVarStep ::
  "string \<Rightarrow> string \<Rightarrow> (string \<times> string) list \<Rightarrow> (string \<times> string) list \<Rightarrow> rmatch \<Rightarrow> (string \<times> string) list" where
  \<comment> \<open>the body of the loop over \<open>docVarRe\<close>\<close>
  "docVarStep text namespace useAliases mp m =
     (let docblock = findPhpDocblockBeforeOffset text (int (mindex m) + 3);
          doc = parsePhpDocblock docblock;
          name = ''$'' @ grp m 1;
          ty = (case mapGet (params doc) name of
                  Some t \<Rightarrow> (if t \<noteq> [] then t else returns doc)
                | None \<Rightarrow> returns doc)
      in if ty \<noteq> [] then mapSet mp name (resolvePhpTypeTokenToFqn ty namespace useAliases) else mp)"

definition assignStep ::
  "(string \<times> functionInfo list) list \<Rightarrow> string \<Rightarrow> (string \<times> string) list \<Rightarrow> (string \<times> string) list
     \<Rightarrow> rmatch \<Rightarrow> (string \<times> string) list" where
  \<comment> \<open>the body of the loop over \<open>assignRe\<close>\<close>
  "assignStep sigs namespace useAliases mp m =
     (let name = grp m 1;
          rhs = trim (grp m 2);
          inferred = inferPhpTypeFromExpression sigs rhs namespace useAliases mp
      in if inferred \<noteq> [] then mapSet mp name inferred else mp)"

definition inferPhpVariableTypes :: "document \<Rightarrow> nat \<Rightarrow> workspace \<Rightarrow> (string \<times> string) list option" where
  "inferPhpVariableTypes doc position st =
     do {
       let offset = int position;
       let startOffset = max 0 (offset - 12000);
       let tx = slice (getText doc) (int (positionAt doc startOffset)) offset;
       let namespace = getPhpNamespace (getText doc);
       useAliases \<leftarrow> parsePhpUseAliases (getText doc);
       docMatches \<leftarrow> execAll docVarRe tx;
       let mp1 = foldl (docVarStep tx namespace useAliases) [] docMatches;
       assignMatches \<leftarrow> execAll assignRe tx;
       Some (foldl (assignStep (phpWorkspaceFunctionInfoByKey st) namespace useAliases) mp1 assignMatches)
     }"

section \<open>Reference index\<close>

text \<open>
  The reference index is part of the \<open>extension.js\<close> that
  \<open>docs/18-unit-test-generator.md\<close> reproduces. That file imports \<open>phpKeywords\<close> from
  \<open>lib/php-data\<close>; the list is the one the other \<open>extension.js\<close> declares.
\<close>

definition phpKeywords :: "string list" where
  "phpKeywords =
     [''abstract'', ''and'', ''array'', ''as'', ''break'', ''callable'', ''case'', ''catch'',
      ''class'', ''clone'', ''const'', ''continue'', ''declare'', ''default'', ''die'', ''do'',
      ''echo'', ''else'', ''elseif'', ''empty'', ''enddeclare'', ''endfor'', ''endforeach'',
      ''endif'', ''endswitch'', ''endwhile'', ''eval'', ''exit'', ''extends'', ''final'',
      ''finally'', ''fn'', ''for'', ''foreach'', ''function'', ''global'', ''goto'', ''if'',
      ''implements'', ''include'', ''include_once'', ''instanceof'', ''insteadof'',
      ''interface'', ''isset'', ''list'', ''match'', ''namespace'', ''new'', ''or'', ''print'',
      ''private'', ''protected'', ''public'', ''readonly'', ''require'', ''require_once'',
      ''return'', ''static'', ''switch'', ''throw'', ''trait'', ''try'', ''unset'', ''use'',
      ''var'', ''while'', ''xor'', ''yield'', ''enum'']"

definition staticCallRe :: regex where
  \<comment> \<open>\<open>/([\\A-Za-z_\x80-\xff][\\\w\x80-\xff]*|self|static|parent)\s*::\s*([A-Za-z_\x80-\xff][\w\x80-\xff]*)\s*\(/g\<close>\<close>
  "staticCallRe = seqs [Group 1 (alts [qualRe, lit ''self'', lit ''static'', lit ''parent'']),
     Star isSpace, lit ''::'', Star isSpace, Group 2 identRe, Star isSpace, chr CHR ''('']"

definition methodCallRe :: regex where
  \<comment> \<open>\<open>/->\s*([A-Za-z_\x80-\xff][\w\x80-\xff]*)\s*\(/g\<close>\<close>
  "methodCallRe = seqs [lit ''->'', Star isSpace, Group 1 identRe, Star isSpace, chr CHR ''('']"

definition fnCallRe :: regex where
  \<comment> \<open>\<open>/\b([A-Za-z_\x80-\xff][\w\x80-\xff]*)\s*\(/g\<close>\<close>
  "fnCallRe = seqs [WordB, Group 1 identRe, Star isSpace, chr CHR ''('']"

definition declarationBeforeRe :: regex where
  \<comment> \<open>\<open>/(?:function|new)\s+$/\<close>\<close>
  "declarationBeforeRe = seqs [Alt (lit ''function'') (lit ''new''), Plus isSpace, Eol]"

definition pushReference :: "document \<Rightarrow> string \<Rightarrow> int \<Rightarrow> nat \<Rightarrow> string \<times> location" where
  \<comment> \<open>the entry that \<open>push(key, index, length)\<close> appends\<close>
  "pushReference doc k index len =
     (k, Location (uri doc) (positionAt doc index) (positionAt doc (index + int len)))"

fun staticCallLoop :: "document \<Rightarrow> (string \<times> location) list \<Rightarrow> rmatch list \<Rightarrow> (string \<times> location) list" where
  "staticCallLoop doc results [] = results"
| "staticCallLoop doc results (m # ms) =
     (let method = grp m 2;
          classTok = replaceFirst leadingBackslashesRe [] (grp m 1);
          short = pop (split classTok backslash);
          methodIndex = int (mindex m) + jsIndex (lastIndexOf (mtext m) method);
          r1 = results @ [pushReference doc (''static:'' @ classTok @ ''::'' @ method) methodIndex (length method)];
          r2 = (if short \<noteq> []
                then r1 @ [pushReference doc (''static:'' @ short @ ''::'' @ method) methodIndex (length method)]
                else r1)
      in if 5000 \<le> length r2 then r2 else staticCallLoop doc r2 ms)"

fun methodCallLoop :: "document \<Rightarrow> (string \<times> location) list \<Rightarrow> rmatch list \<Rightarrow> (string \<times> location) list" where
  "methodCallLoop doc results [] = results"
| "methodCallLoop doc results (m # ms) =
     (let method = grp m 1;
          methodIndex = int (mindex m) + jsIndex (lastIndexOf (mtext m) method);
          r1 = results @ [pushReference doc (''method:'' @ method) methodIndex (length method)]
      in if 5000 \<le> length r1 then r1 else methodCallLoop doc r1 ms)"

fun fnCallLoop ::
  "string list \<Rightarrow> document \<Rightarrow> (string \<times> location) list \<Rightarrow> rmatch list \<Rightarrow> (string \<times> location) list" where
  "fnCallLoop keywords doc results [] = results"
| "fnCallLoop keywords doc results (m # ms) =
     (let name = grp m 1;
          tx = getText doc
      in if name = [] \<or> name \<in> set keywords then fnCallLoop keywords doc results ms
         else if test declarationBeforeRe (slice tx (max 0 (int (mindex m) - 20)) (int (mindex m)))
         then fnCallLoop keywords doc results ms
         else (let prev2 = slice tx (max 0 (int (mindex m) - 2)) (int (mindex m))
               in if prev2 = ''->'' \<or> prev2 = ''::'' then fnCallLoop keywords doc results ms
                  else (let nameIndex = int (mindex m) + jsIndex (indexOf (mtext m) name);
                            r1 = results @ [pushReference doc (''fn:'' @ name) nameIndex (length name)]
                        in if 5000 \<le> length r1 then r1 else fnCallLoop keywords doc r1 ms)))"

definition extractPhpReferencesFromDocument :: "document \<Rightarrow> (string \<times> location) list option" where
  "extractPhpReferencesFromDocument doc =
     do {
       staticMatches \<leftarrow> execAll staticCallRe (getText doc);
       let r1 = staticCallLoop doc [] staticMatches;
       methodMatches \<leftarrow> execAll methodCallRe (getText doc);
       let r2 = methodCallLoop doc r1 methodMatches;
       fnMatches \<leftarrow> execAll fnCallRe (getText doc);
       Some (fnCallLoop phpKeywords doc r2 fnMatches)
     }"

definition addReference :: "(string \<times> location list) list \<Rightarrow> string \<times> location \<Rightarrow> (string \<times> location list) list" where
  "addReference index r =
     mapSet index (fst r) ((case mapGet index (fst r) of Some l \<Rightarrow> l | None \<Rightarrow> []) @ [snd r])"

text \<open>
  \<open>ensurePhpWorkspaceReferenceIndex\<close> is asynchronous. It clears the index and sets
  \<open>phpWorkspaceReferenceIndexBuilding\<close> before it first gives up control, then waits for
  \<open>findFiles\<close> and, file by file, for \<open>openTextDocument\<close>; while it waits, other handlers
  of the extension run and may change the variables. A \<open>handler\<close> is what they do to the
  variables during one wait. A build is run with \<open>found\<close>, the handlers that run until
  \<open>findFiles\<close> answers, and for every file found the handlers that run until it is opened
  and the document (\<open>None\<close> for a file that cannot be opened). When the loop is through,
  the version the symbol index has at that moment is recorded, and the flag is reset. The
  result is the state when the build has finished; a call that finds a build in flight
  returns the promise of that build and changes nothing.
\<close>

type_synonym handler = "workspace \<Rightarrow> workspace"

definition scanReferences :: "workspace option \<Rightarrow> handler \<times> document option \<Rightarrow> workspace option" where
  \<comment> \<open>one round of the loop over the files\<close>
  "scanReferences acc f =
     do {
       st0 \<leftarrow> acc;
       let st = fst f st0;
       (case snd f of
          None \<Rightarrow> Some st
        | Some doc \<Rightarrow>
            (if languageId doc \<noteq> ''php'' then Some st
             else do {
                    refs \<leftarrow> extractPhpReferencesFromDocument doc;
                    Some (st\<lparr>phpWorkspaceReferenceIndex :=
                               foldl addReference (phpWorkspaceReferenceIndex st) refs\<rparr>)
                  }))
     }"

definition ensurePhpWorkspaceReferenceIndex ::
  "handler \<Rightarrow> (handler \<times> document option) list \<Rightarrow> workspace \<Rightarrow> workspace option" where
  "ensurePhpWorkspaceReferenceIndex found files st =
     (if phpWorkspaceReferenceIndexBuilding st then Some st
      else if phpWorkspaceReferenceIndexVersion st = phpWorkspaceIndexVersion st then Some st
      else map_option
             (\<lambda>st'. st'\<lparr>phpWorkspaceReferenceIndexVersion := phpWorkspaceIndexVersion st',
                         phpWorkspaceReferenceIndexBuilding := False\<rparr>)
             (foldl scanReferences
                (Some (found (st\<lparr>phpWorkspaceReferenceIndexBuilding := True,
                                  phpWorkspaceReferenceIndex := []\<rparr>)))
                files))"

text \<open>
  In this file \<open>deletePhpIndexForUri\<close>, \<open>updatePhpIndexForDocument\<close> and
  \<open>extractPhpSymbolsFromDocument\<close> have the text they have in the other one, and the
  helpers it imports from \<open>lib/php-utils\<close> are the functions of these names above. For
  \<open>rebuildPhpClassFqnMaps\<close> it has neither a definition nor an import: the call raises a
  \<open>ReferenceError\<close>, after the assignments that precede it and before the version counter
  is touched. The result of a call is the error it raises, if any, and the state it leaves.
\<close>

datatype error = ReferenceError string

definition deletePhpIndexForUri_docs18 :: "string \<Rightarrow> workspace \<Rightarrow> error option \<times> workspace" where
  "deletePhpIndexForUri_docs18 uriKey st =
     (case mapGet (phpWorkspaceIndexKeysByUri st) uriKey of
        None \<Rightarrow> (None, st)
      | Some keys \<Rightarrow>
          (let st1 = foldl (deleteKey uriKey) st keys;
               st2 = st1\<lparr>phpWorkspaceIndexKeysByUri := mapDelete (phpWorkspaceIndexKeysByUri st1) uriKey,
                         phpWorkspaceClassInfoByFqn :=
                           filter (\<lambda>e. curi (snd e) \<noteq> Some uriKey) (phpWorkspaceClassInfoByFqn st1)\<rparr>
           in (Some (ReferenceError ''rebuildPhpClassFqnMaps''), st2)))"

definition updatePhpIndexForDocument_docs18 ::
  "document option \<Rightarrow> workspace \<Rightarrow> (error option \<times> workspace) option" where
  \<comment> \<open>\<open>None\<close> as a document is \<open>null\<close>; \<open>None\<close> as a result is a call that does not return\<close>
  "updatePhpIndexForDocument_docs18 document st =
     (case document of
        None \<Rightarrow> Some (None, st)
      | Some doc \<Rightarrow>
          (if languageId doc \<noteq> ''php'' then Some (None, st)
           else
             (case deletePhpIndexForUri_docs18 (uri doc) st of
                (Some e, st1) \<Rightarrow> Some (Some e, st1)
              | (None, st1) \<Rightarrow>
                  do {
                    symbols \<leftarrow> extractPhpSymbolsFromDocument doc;
                    let acc = foldl (addSymbol (uri doc)) (st1, []) symbols;
                    let st2 = (if snd acc \<noteq> []
                               then (fst acc)\<lparr>phpWorkspaceIndexKeysByUri :=
                                       mapSet (phpWorkspaceIndexKeysByUri (fst acc)) (uri doc) (snd acc)\<rparr>
                               else fst acc);
                    Some (Some (ReferenceError ''rebuildPhpClassFqnMaps''), st2)
                  })))"

section \<open>Notions used in the statements and proofs\<close>

fun rminlen :: "regex \<Rightarrow> nat" where
  \<comment> \<open>a lower bound on the length of every match of a pattern\<close>
  "rminlen (Cls P) = 1"
| "rminlen (Seq a b) = rminlen a + rminlen b"
| "rminlen (Alt a b) = min (rminlen a) (rminlen b)"
| "rminlen (Group n a) = rminlen a"
| "rminlen _ = 0"

fun fminlen :: "frame \<Rightarrow> nat" where
  "fminlen (Rx r) = rminlen r"
| "fminlen (Close n st tx) = 0"

definition symbolKeys :: "symbol list \<Rightarrow> string set" where
  \<comment> \<open>the keys \<open>updatePhpIndexForDocument\<close> records for a file: those of its symbols that
      are not empty\<close>
  "symbolKeys syms = {k \<in> key ` set syms. k \<noteq> []}"

definition retract :: "string \<Rightarrow> location list option \<Rightarrow> location list option" where
  \<comment> \<open>an entry of the index after the locations of one file are taken out\<close>
  "retract uriKey e =
     (case e of
        None \<Rightarrow> None
      | Some locs \<Rightarrow>
          (if filter (\<lambda>loc. luri loc \<noteq> uriKey) locs = [] then None
           else Some (filter (\<lambda>loc. luri loc \<noteq> uriKey) locs)))"

text \<open>
  The members cache is sound when no entry is stamped with a version of the future and every
  entry stamped with the current version holds what a computation on the current index
  gives. \<open>reachable\<close> are the states the extension can be in: from the initial one, by
  any sequence of updates, deletes and member queries. These operations neither read nor
  write the three variables of the reference index, which may hold anything.
\<close>

definition membersCacheSound :: "(string \<Rightarrow> string \<Rightarrow> int) \<Rightarrow> workspace \<Rightarrow> bool" where
  "membersCacheSound localeCompare st =
     list_all (\<lambda>e. cachedVersion (snd e) \<le> phpWorkspaceIndexVersion st
                   \<and> (cachedVersion (snd e) = phpWorkspaceIndexVersion st \<longrightarrow>
                        cachedValue (snd e) = computePhpMembers localeCompare (phpWorkspaceIndex st) (fst e)))
       (phpWorkspaceMembersCache st)"

inductive reachable :: "(string \<Rightarrow> string \<Rightarrow> int) \<Rightarrow> workspace \<Rightarrow> bool"
  for localeCompare :: "string \<Rightarrow> string \<Rightarrow> int" where
  initial: "reachable localeCompare initialWorkspace"
| update: "reachable localeCompare st \<Longrightarrow> updatePhpIndexForDocument document st = Some st'
            \<Longrightarrow> reachable localeCompare st'"
| delete: "reachable localeCompare st \<Longrightarrow> reachable localeCompare (deletePhpIndexForUri uriKey st)"
| members: "reachable localeCompare st
            \<Longrightarrow> reachable localeCompare (snd (getPhpMembersForClass localeCompare classNameOrFqn st))"
| references: "reachable localeCompare st
            \<Longrightarrow> reachable localeCompare
                  (st\<lparr>phpWorkspaceReferenceIndexBuilding := building, phpWorkspaceReferenceIndex := index,
                      phpWorkspaceReferenceIndexVersion := version\<rparr>)"

text \<open>
  The two contents of the file in the scenario of member completion after an edit.
\<close>

definition docA1 :: document where
  "docA1 = \<lparr>uri = ''a.php'', languageId = ''php'', getText = ''class C { public $foo; }''\<rparr>"

definition docA2 :: document where
  "docA2 = \<lparr>uri = ''a.php'', languageId = ''php'', getText = ''class C { public $bar; }''\<rparr>"


text \<open>
  The pattern for the name of a class constant in the words of the specification: the first
  character is an upper-case letter or an underscore, the others are upper-case letters,
  digits or underscores. \<open>membersUnder\<close> are the member names found under the
  \<open>Class::member\<close> keys of a class in the index.
\<close>

fun constantNameSpec :: "string \<Rightarrow> bool" where
  "constantNameSpec [] = False"
| "constantNameSpec (c # cs) =
     ((isUpper c \<or> c = CHR ''_'') \<and> (\<forall>d \<in> set cs. isUpper d \<or> isDigit d \<or> d = CHR ''_''))"

definition memberKey :: "string \<Rightarrow> string \<Rightarrow> bool" where
  "memberKey classKey k =
     (startsWith k (classKey @ ''::'') \<or> startsWith k (pop (split classKey backslash) @ ''::''))"

definition membersUnder :: "(string \<times> location list) list \<Rightarrow> string \<Rightarrow> string set" where
  "membersUnder index classKey =
     {m. m \<noteq> [] \<and> (\<exists>k \<in> fst ` set index. memberKey classKey k \<and> m = pop (split k ''::''))}"

text \<open>
  What one line of a doc comment contributes: the pair of parameter name and type of its
  parameter annotation, and the type of its return annotation. \<open>lastParamType\<close> is the
  type in the last line that annotates a parameter name, \<open>firstReturnType\<close> the type in
  the first line with a return annotation (a type is never empty). \<open>docblockTwice\<close> is
  a doc comment that annotates \<open>$x\<close> twice and the return type twice.
\<close>

definition lineParam :: "string \<Rightarrow> (string \<times> string) option" where
  "lineParam line = map_option (\<lambda>m. (grp m 2, grp m 1)) (matchFirst paramTagRe line)"

definition lineReturn :: "string \<Rightarrow> string option" where
  "lineReturn line = map_option (\<lambda>m. grp m 1) (matchFirst returnTagRe line)"

definition lastParamType :: "string list \<Rightarrow> string \<Rightarrow> string option" where
  "lastParamType lines name =
     (case rev (filter (\<lambda>p. fst p = name) (List.map_filter lineParam lines)) of
        [] \<Rightarrow> None
      | p # _ \<Rightarrow> Some (snd p))"

definition firstReturnType :: "string list \<Rightarrow> string" where
  "firstReturnType lines =
     (case filter (\<lambda>t. t \<noteq> []) (List.map_filter lineReturn lines) of [] \<Rightarrow> [] | t # _ \<Rightarrow> t)"

definition docblockTwice :: string where
  "docblockTwice = ''/**'' @ [CHR 0x0A] @ '' * @param int $x'' @ [CHR 0x0A] @ '' * @param string $x'' @ [CHR 0x0A]
     @ '' * @return bool'' @ [CHR 0x0A] @ '' * @return array'' @ [CHR 0x0A] @ '' */''"


text \<open>
  The documents of three scenarios: a variable with a doc-comment annotation and an
  assignment, a class whose body brace is never closed, and a class with one method in a
  namespace.
\<close>

definition docAnnotated :: document where
  "docAnnotated = \<lparr>uri = ''a.php'', languageId = ''php'', getText = ''/** @param Foo $x */ $x = 5;''\<rparr>"

definition docUnbalanced :: document where
  "docUnbalanced = \<lparr>uri = ''a.php'', languageId = ''php'', getText = ''class A { function foo() { }''\<rparr>"

definition docGreeter :: document where
  "docGreeter = \<lparr>uri = ''a.php'', languageId = ''php'',
     getText = ''namespace App; class Greeter { public function hello(string $name): string { } }''\<rparr>"

text \<open>
  The reference list of a key in the reference index (empty when the key is absent), and the
  locations of the references with a given key that the extractor finds in one document.
\<close>

definition referencesOf :: "(string \<times> location list) list \<Rightarrow> string \<Rightarrow> location list" where
  "referencesOf index k = (case mapGet index k of Some l \<Rightarrow> l | None \<Rightarrow> [])"

definition documentReferences :: "document \<Rightarrow> string \<Rightarrow> location list" where
  "documentReferences d k =
     (case extractPhpReferencesFromDocument d of
        Some refs \<Rightarrow> map snd (filter (\<lambda>r. fst r = k) refs)
      | None \<Rightarrow> [])"

text \<open>
  The file of the scenario of the reference index, before and after a call of \<open>f\<close> is
  added to it.
\<close>

definition docCallsG :: document where
  "docCallsG = \<lparr>uri = ''file:///app/b.php'', languageId = ''php'',
     getText = ''<?php'' @ [CHR 0x0A] @ ''g();''\<rparr>"

definition docCallsGF :: document where
  "docCallsGF = \<lparr>uri = ''file:///app/b.php'', languageId = ''php'',
     getText = ''<?php'' @ [CHR 0x0A] @ ''g();'' @ [CHR 0x0A] @ ''f();''\<rparr>"


text \<open>
  The files of the scenario of local resolution: a file that declares \<open>f\<close> and calls it
  on the line of a \<open>route\<close> call, a route file that names the route, and another file that
  declares a function \<open>f\<close>.
\<close>

definition docRouteThenCall :: document where
  "docRouteThenCall = \<lparr>uri = ''file:///app/a.php'', languageId = ''php'',
     getText = ''<?php'' @ [CHR 0x0A] @ ''function f() {}'' @ [CHR 0x0A]
       @ ''echo route('' @ apostrophe @ ''home.index'' @ apostrophe @ '') . f();''\<rparr>"

definition docRoutes :: document where
  "docRoutes = \<lparr>uri = ''file:///app/routes/web.php'', languageId = ''php'',
     getText = ''<?php'' @ [CHR 0x0A] @ ''Route::get('' @ apostrophe @ ''/'' @ apostrophe
       @ '', index())->name('' @ apostrophe @ ''home.index'' @ apostrophe @ '');''\<rparr>"

definition docOtherF :: document where
  "docOtherF = \<lparr>uri = ''file:///app/b.php'', languageId = ''php'',
     getText = ''<?php'' @ [CHR 0x0A] @ ''function f() {}''\<rparr>"

section \<open>Properties of the matcher\<close>

lemma run_suffix:
  "run fs p cs i g = Some s \<Longrightarrow>
     \<exists>pre. cs = pre @ srest s \<and> spos s = i + length pre \<and> sum_list (map fminlen fs) \<le> length pre"
proof (induction fs p cs i g rule: run.induct)
  case (3 P fs p c cs i g)
  then show ?case by (fastforce split: if_splits)
next
  case (6 a b fs p cs i g)
  then show ?case by (fastforce split: option.splits)
next
  case (8 P fs p c cs i g)
  then show ?case by (fastforce split: if_splits option.splits)
next
  case (10 P fs p c cs i g)
  then show ?case by (fastforce split: if_splits option.splits)
qed (auto split: if_splits)

lemma execFrom_sound:
  "execFrom re p cs i = Some m \<Longrightarrow>
     \<exists>skip post. cs = skip @ mtext m @ post \<and> mindex m = i + length skip \<and> rminlen re \<le> length (mtext m)"
proof (induction cs arbitrary: p i)
  case Nil
  then show ?case by (auto split: option.splits dest!: run_suffix)
next
  case (Cons c cs)
  show ?case
  proof (cases "run [Rx re] p (c # cs) i []")
    case None
    with Cons.prems have "execFrom re (Some c) cs (i + 1) = Some m" by simp
    from Cons.IH [OF this] obtain skip post where
      "cs = skip @ mtext m @ post" "mindex m = i + 1 + length skip" "rminlen re \<le> length (mtext m)"
      by auto
    then have "c # cs = (c # skip) @ mtext m @ post \<and> mindex m = i + length (c # skip) \<and> rminlen re \<le> length (mtext m)"
      by simp
    then show ?thesis by blast
  next
    case (Some s)
    from run_suffix [OF Some] obtain pre where
      pre: "c # cs = pre @ srest s" "spos s = i + length pre" "rminlen re \<le> length pre" by auto
    from Some Cons.prems have m: "m = Match i (take (spos s - i) (c # cs)) (scaps s)" by simp
    with pre have "mtext m = pre" by simp
    with pre m have "c # cs = [] @ mtext m @ srest s \<and> mindex m = i + length ([]::string) \<and> rminlen re \<le> length (mtext m)"
      by simp
    then show ?thesis by blast
  qed
qed

lemma exec_sound:
  assumes "exec re tx li = Some m"
  shows "li \<le> mindex m" and "mend m \<le> length tx" and "rminlen re \<le> length (mtext m)"
    and "take (length (mtext m)) (drop (mindex m) tx) = mtext m"
proof -
  from assms have le: "li \<le> length tx" and ex: "execFrom re (prevChar tx li) (drop li tx) li = Some m"
    by (auto simp: exec_def split: if_splits)
  from execFrom_sound [OF ex] obtain skip post where
    sp: "drop li tx = skip @ mtext m @ post" "mindex m = li + length skip" "rminlen re \<le> length (mtext m)"
    by auto
  show "li \<le> mindex m" using sp by simp
  show "rminlen re \<le> length (mtext m)" using sp by simp
  have "length (drop li tx) = length skip + length (mtext m) + length post" using sp(1) by simp
  then show "mend m \<le> length tx" using le sp(2) by (simp add: mend_def)
  have "drop (mindex m) tx = drop (length skip) (drop li tx)" using sp(2) by (simp add: add.commute)
  also have "\<dots> = mtext m @ post" using sp(1) by simp
  finally show "take (length (mtext m)) (drop (mindex m) tx) = mtext m" by simp
qed

lemma execAllFrom_total:
  "0 < rminlen re \<Longrightarrow> \<exists>ms. execAllFrom re tx li = Some ms"
proof (induction re tx li rule: execAllFrom.induct)
  case (1 re tx li)
  show ?case
  proof (cases "exec re tx li")
    case None
    then show ?thesis by (subst execAllFrom.simps) simp
  next
    case (Some m)
    from exec_sound(1,3) [OF Some] "1.prems" have lt: "li < mend m"
      by (simp add: mend_def)
    from "1.IH" [OF Some lt "1.prems"] obtain ms where "execAllFrom re tx (mend m) = Some ms" ..
    with Some lt show ?thesis by (subst execAllFrom.simps) simp
  qed
qed

lemma execAll_total: "0 < rminlen re \<Longrightarrow> \<exists>ms. execAll re tx = Some ms"
  unfolding execAll_def by (rule execAllFrom_total)

lemma rminlen_seqs: "rminlen (seqs rs) = sum_list (map rminlen rs)"
  by (induction rs rule: seqs.induct) simp_all

lemma rminlen_lit: "rminlen (lit s) = length s"
  by (induction s) (simp_all add: lit_def rminlen_seqs chr_def)

lemma rminlen_liti: "rminlen (liti s) = length s"
  by (induction s) (simp_all add: liti_def rminlen_seqs chri_def)

lemma rminlen_Plus: "rminlen (Plus P) = 1"
  by (simp add: Plus_def)

lemma pos_classDeclRe: "0 < rminlen classDeclRe"
  by (simp add: classDeclRe_def rminlen_seqs rminlen_Plus)

lemma pos_functionRe: "0 < rminlen functionRe"
  by (simp add: functionRe_def rminlen_seqs rminlen_Plus)

lemma pos_propRe: "0 < rminlen propRe"
  by (simp add: propRe_def rminlen_seqs rminlen_Plus)

lemma pos_constRe: "0 < rminlen constRe"
  by (simp add: constRe_def rminlen_seqs rminlen_Plus)

lemma pos_globalConstRe: "0 < rminlen globalConstRe"
  by (simp add: globalConstRe_def rminlen_seqs rminlen_Plus)

lemma pos_defineRe: "0 < rminlen defineRe"
  by (simp add: defineRe_def rminlen_seqs rminlen_Plus)

lemma pos_useRe: "0 < rminlen useRe"
  by (simp add: useRe_def rminlen_seqs rminlen_Plus)

lemma parsePhpUseAliases_total: "\<exists>a. parsePhpUseAliases tx = Some a"
  using execAll_total [OF pos_useRe, of tx] by (auto simp: parsePhpUseAliases_def)

lemma classDeclSymbols_total: "\<exists>r. classDeclSymbols doc ns m = Some r"
proof (cases "indexOfFrom (getText doc) ''{'' (mindex m)")
  case None
  then show ?thesis by (simp add: classDeclSymbols_def Let_def)
next
  case (Some braceStart)
  show ?thesis
  proof (cases "findMatchingBrace (getText doc) braceStart")
    case None
    with Some show ?thesis by (simp add: classDeclSymbols_def Let_def)
  next
    case (Some braceEnd)
    let ?body = "slice (getText doc) (int braceStart) (int braceEnd + 1)"
    obtain a where a: "parsePhpUseAliases (getText doc) = Some a"
      using parsePhpUseAliases_total by blast
    obtain ms where b: "execAll functionRe ?body = Some ms"
      using execAll_total [OF pos_functionRe] by blast
    obtain ps where c: "execAll propRe ?body = Some ps"
      using execAll_total [OF pos_propRe] by blast
    obtain cs where d: "execAll constRe ?body = Some cs"
      using execAll_total [OF pos_constRe] by blast
    from \<open>indexOfFrom (getText doc) ''{'' (mindex m) = Some braceStart\<close> Some a b c d
    show ?thesis by (simp add: classDeclSymbols_def Let_def)
  qed
qed

lemma those_total: "(\<And>x. \<exists>y. f x = Some y) \<Longrightarrow> \<exists>ys. those (map f xs) = Some ys"
proof (induction xs)
  case Nil
  then show ?case by simp
next
  case (Cons x xs)
  then obtain ys where "those (map f xs) = Some ys" by blast
  moreover from Cons.prems obtain y where "f x = Some y" by blast
  ultimately show ?case by simp
qed

lemma extractPhpSymbolsFromDocument_total: "\<exists>syms. extractPhpSymbolsFromDocument doc = Some syms"
proof -
  obtain cms where 1: "execAll classDeclRe (getText doc) = Some cms"
    using execAll_total [OF pos_classDeclRe] by blast
  obtain cls where 2: "those (map (classDeclSymbols doc (getPhpNamespace (getText doc))) cms) = Some cls"
    using those_total [of "classDeclSymbols doc (getPhpNamespace (getText doc))" cms] classDeclSymbols_total
    by blast
  obtain fms where 3: "execAll functionRe (getText doc) = Some fms"
    using execAll_total [OF pos_functionRe] by blast
  obtain gms where 4: "execAll globalConstRe (getText doc) = Some gms"
    using execAll_total [OF pos_globalConstRe] by blast
  obtain dms where 5: "execAll defineRe (getText doc) = Some dms"
    using execAll_total [OF pos_defineRe] by blast
  show ?thesis
    unfolding extractPhpSymbolsFromDocument_def Let_def
    by (simp add: 1 2 3 4 5)
qed

section \<open>Properties of the workspace symbol index\<close>

lemma mapGet_mapSet: "mapGet (mapSet m k v) k' = (if k' = k then Some v else mapGet m k')"
  by (induction m) (auto simp: mapGet_def)

lemma mapGet_mapDelete: "mapGet (mapDelete m k) k' = (if k' = k then None else mapGet m k')"
  by (induction m) (auto simp: mapGet_def mapDelete_def)

lemma mapGet_setOrDelete:
  "mapGet (setOrDelete m k v) k' = (if k' = k then (if v = [] then None else Some v) else mapGet m k')"
  by (simp add: setOrDelete_def mapGet_mapSet mapGet_mapDelete)

lemma deleteKey_index:
  "mapGet (phpWorkspaceIndex (deleteKey u st k)) k' =
     (if k' = k then retract u (mapGet (phpWorkspaceIndex st) k') else mapGet (phpWorkspaceIndex st) k')"
  by (auto simp: deleteKey_def Let_def retract_def mapGet_setOrDelete split: option.splits)

lemma retract_idem: "retract u (retract u e) = retract u e"
  by (auto simp: retract_def split: option.splits)

lemma deleteKey_fold_index:
  "mapGet (phpWorkspaceIndex (foldl (deleteKey u) st ks)) k' =
     (if k' \<in> set ks then retract u (mapGet (phpWorkspaceIndex st) k') else mapGet (phpWorkspaceIndex st) k')"
proof (induction ks arbitrary: st)
  case Nil
  then show ?case by simp
next
  case (Cons k ks)
  show ?case by (simp add: Cons.IH deleteKey_index retract_idem)
qed

lemma deleteKey_other:
  "phpWorkspaceIndexVersion (deleteKey u st k) = phpWorkspaceIndexVersion st"
  "phpWorkspaceIndexKeysByUri (deleteKey u st k) = phpWorkspaceIndexKeysByUri st"
  "phpWorkspaceMembersCache (deleteKey u st k) = phpWorkspaceMembersCache st"
  "phpWorkspaceReferenceIndexVersion (deleteKey u st k) = phpWorkspaceReferenceIndexVersion st"
  "phpWorkspaceReferenceIndex (deleteKey u st k) = phpWorkspaceReferenceIndex st"
  "phpWorkspaceReferenceIndexBuilding (deleteKey u st k) = phpWorkspaceReferenceIndexBuilding st"
  by (auto simp: deleteKey_def Let_def split: option.splits)

lemma deleteKey_fold_other:
  "phpWorkspaceIndexVersion (foldl (deleteKey u) st ks) = phpWorkspaceIndexVersion st"
  "phpWorkspaceIndexKeysByUri (foldl (deleteKey u) st ks) = phpWorkspaceIndexKeysByUri st"
  "phpWorkspaceMembersCache (foldl (deleteKey u) st ks) = phpWorkspaceMembersCache st"
  "phpWorkspaceReferenceIndexVersion (foldl (deleteKey u) st ks) = phpWorkspaceReferenceIndexVersion st"
  "phpWorkspaceReferenceIndex (foldl (deleteKey u) st ks) = phpWorkspaceReferenceIndex st"
  "phpWorkspaceReferenceIndexBuilding (foldl (deleteKey u) st ks) = phpWorkspaceReferenceIndexBuilding st"
  by (induction ks arbitrary: st) (simp_all add: deleteKey_other)

lemma deletePhpIndexForUri_unknown:
  "mapGet (phpWorkspaceIndexKeysByUri st) u = None \<Longrightarrow> deletePhpIndexForUri u st = st"
  by (simp add: deletePhpIndexForUri_def)

lemma deletePhpIndexForUri_version:
  "mapGet (phpWorkspaceIndexKeysByUri st) u = Some ks \<Longrightarrow>
     phpWorkspaceIndexVersion (deletePhpIndexForUri u st) = phpWorkspaceIndexVersion st + 1"
  by (simp add: deletePhpIndexForUri_def Let_def rebuildPhpClassFqnMaps_def deleteKey_fold_other)

lemma deletePhpIndexForUri_index:
  "mapGet (phpWorkspaceIndex (deletePhpIndexForUri u st)) k =
     (case mapGet (phpWorkspaceIndexKeysByUri st) u of
        None \<Rightarrow> mapGet (phpWorkspaceIndex st) k
      | Some ks \<Rightarrow> (if k \<in> set ks then retract u (mapGet (phpWorkspaceIndex st) k)
                    else mapGet (phpWorkspaceIndex st) k))"
  by (simp add: deletePhpIndexForUri_def Let_def rebuildPhpClassFqnMaps_def deleteKey_fold_index
           split: option.splits)

lemma deletePhpIndexForUri_keys:
  "mapGet (phpWorkspaceIndexKeysByUri (deletePhpIndexForUri u st)) u = None"
  by (simp add: deletePhpIndexForUri_def Let_def rebuildPhpClassFqnMaps_def deleteKey_fold_other
        mapGet_mapDelete split: option.splits)

lemma addSymbol_other:
  "phpWorkspaceIndexVersion (fst (addSymbol u acc s)) = phpWorkspaceIndexVersion (fst acc)"
  "phpWorkspaceIndexKeysByUri (fst (addSymbol u acc s)) = phpWorkspaceIndexKeysByUri (fst acc)"
  "phpWorkspaceMembersCache (fst (addSymbol u acc s)) = phpWorkspaceMembersCache (fst acc)"
  "phpWorkspaceReferenceIndexVersion (fst (addSymbol u acc s)) = phpWorkspaceReferenceIndexVersion (fst acc)"
  "phpWorkspaceReferenceIndex (fst (addSymbol u acc s)) = phpWorkspaceReferenceIndex (fst acc)"
  "phpWorkspaceReferenceIndexBuilding (fst (addSymbol u acc s)) = phpWorkspaceReferenceIndexBuilding (fst acc)"
  by (auto simp: addSymbol_def Let_def split: option.splits)

lemma addSymbol_fold_other:
  "phpWorkspaceIndexVersion (fst (foldl (addSymbol u) acc syms)) = phpWorkspaceIndexVersion (fst acc)"
  "phpWorkspaceIndexKeysByUri (fst (foldl (addSymbol u) acc syms)) = phpWorkspaceIndexKeysByUri (fst acc)"
  "phpWorkspaceMembersCache (fst (foldl (addSymbol u) acc syms)) = phpWorkspaceMembersCache (fst acc)"
  "phpWorkspaceReferenceIndexVersion (fst (foldl (addSymbol u) acc syms)) = phpWorkspaceReferenceIndexVersion (fst acc)"
  "phpWorkspaceReferenceIndex (fst (foldl (addSymbol u) acc syms)) = phpWorkspaceReferenceIndex (fst acc)"
  "phpWorkspaceReferenceIndexBuilding (fst (foldl (addSymbol u) acc syms)) = phpWorkspaceReferenceIndexBuilding (fst acc)"
  by (induction syms arbitrary: acc) (simp_all add: addSymbol_other)

lemma addSymbol_index:
  "mapGet (phpWorkspaceIndex (fst (addSymbol u acc s))) k =
     (if key s \<noteq> [] \<and> k = key s
      then Some ((case mapGet (phpWorkspaceIndex (fst acc)) k of Some l \<Rightarrow> l | None \<Rightarrow> []) @ [location s])
      else mapGet (phpWorkspaceIndex (fst acc)) k)"
  by (auto simp: addSymbol_def Let_def mapGet_mapSet split: option.splits)

lemma addSymbol_keys: "set (snd (addSymbol u acc s)) = set (snd acc) \<union> (if key s \<noteq> [] then {key s} else {})"
  by (auto simp: addSymbol_def Let_def setAdd_def)

lemma addSymbol_fold_keys:
  "set (snd (foldl (addSymbol u) acc syms)) = set (snd acc) \<union> symbolKeys syms"
  by (induction syms arbitrary: acc) (auto simp: addSymbol_keys symbolKeys_def)

lemma addSymbol_fold_index_other:
  "k \<notin> symbolKeys syms \<Longrightarrow>
     mapGet (phpWorkspaceIndex (fst (foldl (addSymbol u) acc syms))) k = mapGet (phpWorkspaceIndex (fst acc)) k"
proof (induction syms arbitrary: acc)
  case Nil
  then show ?case by simp
next
  case (Cons s syms)
  from Cons.prems have 1: "k \<notin> symbolKeys syms" and 2: "\<not> (key s \<noteq> [] \<and> k = key s)"
    by (auto simp: symbolKeys_def)
  have "mapGet (phpWorkspaceIndex (fst (addSymbol u acc s))) k = mapGet (phpWorkspaceIndex (fst acc)) k"
    using 2 by (auto simp: addSymbol_index)
  then show ?case using Cons.IH [OF 1] by simp
qed

lemma addSymbol_fold_index_grows:
  "mapGet (phpWorkspaceIndex (fst acc)) k = Some locs \<Longrightarrow>
     \<exists>locs'. mapGet (phpWorkspaceIndex (fst (foldl (addSymbol u) acc syms))) k = Some locs' \<and> set locs \<subseteq> set locs'"
proof (induction syms arbitrary: acc locs)
  case Nil
  then show ?case by simp
next
  case (Cons s syms)
  have "\<exists>l1. mapGet (phpWorkspaceIndex (fst (addSymbol u acc s))) k = Some l1 \<and> set locs \<subseteq> set l1"
    using Cons.prems by (auto simp: addSymbol_index)
  then obtain l1 where l1: "mapGet (phpWorkspaceIndex (fst (addSymbol u acc s))) k = Some l1" "set locs \<subseteq> set l1"
    by blast
  from Cons.IH [OF l1(1)] l1(2) show ?case by fastforce
qed

lemma addSymbol_fold_index_present:
  "s \<in> set syms \<Longrightarrow> key s \<noteq> [] \<Longrightarrow>
     \<exists>locs. mapGet (phpWorkspaceIndex (fst (foldl (addSymbol u) acc syms))) (key s) = Some locs
            \<and> location s \<in> set locs"
proof (induction syms arbitrary: acc)
  case Nil
  then show ?case by simp
next
  case (Cons a syms)
  show ?case
  proof (cases "s = a")
    case True
    have "\<exists>l1. mapGet (phpWorkspaceIndex (fst (addSymbol u acc a))) (key a) = Some l1 \<and> location a \<in> set l1"
      using Cons.prems True by (simp add: addSymbol_index)
    then obtain l1 where l1: "mapGet (phpWorkspaceIndex (fst (addSymbol u acc a))) (key a) = Some l1"
      "location a \<in> set l1" by blast
    from addSymbol_fold_index_grows [OF l1(1), of u syms] l1(2) True show ?thesis by auto
  next
    case False
    with Cons.prems have "s \<in> set syms" by simp
    from Cons.IH [OF this Cons.prems(2)] show ?thesis by simp
  qed
qed

lemma updatePhpIndexForDocument_php:
  assumes "languageId doc = ''php''" and "extractPhpSymbolsFromDocument doc = Some syms"
  shows "\<exists>st'. updatePhpIndexForDocument (Some doc) st = Some st'
           \<and> phpWorkspaceIndex st' =
               phpWorkspaceIndex (fst (foldl (addSymbol (uri doc)) (deletePhpIndexForUri (uri doc) st, []) syms))
           \<and> phpWorkspaceIndexVersion st' = phpWorkspaceIndexVersion (deletePhpIndexForUri (uri doc) st) + 1
           \<and> phpWorkspaceIndexKeysByUri st' =
               (if snd (foldl (addSymbol (uri doc)) (deletePhpIndexForUri (uri doc) st, []) syms) \<noteq> []
                then mapSet (phpWorkspaceIndexKeysByUri (deletePhpIndexForUri (uri doc) st)) (uri doc)
                       (snd (foldl (addSymbol (uri doc)) (deletePhpIndexForUri (uri doc) st, []) syms))
                else phpWorkspaceIndexKeysByUri (deletePhpIndexForUri (uri doc) st))
           \<and> phpWorkspaceMembersCache st' = phpWorkspaceMembersCache st
           \<and> phpWorkspaceReferenceIndexVersion st' = phpWorkspaceReferenceIndexVersion st"
proof -
  have c: "phpWorkspaceMembersCache (deletePhpIndexForUri u st) = phpWorkspaceMembersCache st"
    "phpWorkspaceReferenceIndexVersion (deletePhpIndexForUri u st) = phpWorkspaceReferenceIndexVersion st" for u
    by (simp_all add: deletePhpIndexForUri_def Let_def rebuildPhpClassFqnMaps_def deleteKey_fold_other
          split: option.splits)
  show ?thesis
    using assms
    by (simp add: updatePhpIndexForDocument_def Let_def rebuildPhpClassFqnMaps_def addSymbol_fold_other c)
qed

lemma deletePhpIndexForUri_version_le:
  "phpWorkspaceIndexVersion st \<le> phpWorkspaceIndexVersion (deletePhpIndexForUri u st)"
  by (cases "mapGet (phpWorkspaceIndexKeysByUri st) u")
     (simp_all add: deletePhpIndexForUri_unknown deletePhpIndexForUri_version)

lemma those_elem:
  "those (map f xs) = Some ys \<Longrightarrow> y \<in> set ys \<Longrightarrow> \<exists>x \<in> set xs. f x = Some y"
proof (induction xs arbitrary: ys)
  case Nil
  then show ?case by simp
next
  case (Cons x xs)
  then show ?case by (fastforce split: option.splits)
qed

lemma classDeclSymbols_uri:
  "classDeclSymbols doc ns m = Some r \<Longrightarrow> s \<in> set (snd r) \<Longrightarrow> luri (location s) = uri doc"
  by (auto simp: classDeclSymbols_def Let_def bind_eq_Some_conv mkSymbol_def locationAt_def
        methodSymbols_def propSymbols_def constSymbols_def split: option.splits if_splits)

lemma extractPhpSymbolsFromDocument_uri:
  assumes "extractPhpSymbolsFromDocument doc = Some syms" and "s \<in> set syms"
  shows "luri (location s) = uri doc"
proof -
  from assms(1) obtain cms cls fms gms dms where
    cls: "those (map (classDeclSymbols doc (getPhpNamespace (getText doc))) cms) = Some cls" and
    syms: "syms = concat (map snd cls) @
             concat (map (functionSymbols doc (getPhpNamespace (getText doc)))
                       (filter (\<lambda>m. \<not> inClassRange (concat (map fst cls)) m) fms)) @
             concat (map (globalConstSymbols doc (getPhpNamespace (getText doc)))
                       (filter (\<lambda>m. \<not> inClassRange (concat (map fst cls)) m) gms)) @
             concat (map (globalConstSymbols doc (getPhpNamespace (getText doc))) dms)"
    by (auto simp: extractPhpSymbolsFromDocument_def Let_def bind_eq_Some_conv)
  from assms(2) syms consider
    (c) r where "r \<in> set cls" "s \<in> set (snd r)"
    | (f) m where "s \<in> set (functionSymbols doc (getPhpNamespace (getText doc)) m)"
    | (g) m where "s \<in> set (globalConstSymbols doc (getPhpNamespace (getText doc)) m)"
    by auto
  then show ?thesis
  proof cases
    case c
    from those_elem [OF cls c(1)] obtain m where
      "classDeclSymbols doc (getPhpNamespace (getText doc)) m = Some r" by blast
    from classDeclSymbols_uri [OF this c(2)] show ?thesis .
  next
    case f
    then show ?thesis
      by (auto simp: functionSymbols_def Let_def mkSymbol_def locationAt_def split: if_splits)
  next
    case g
    then show ?thesis
      by (auto simp: globalConstSymbols_def Let_def mkSymbol_def locationAt_def split: if_splits)
  qed
qed

lemma update_keys_after:
  assumes php: "languageId doc = ''php''" and ex: "extractPhpSymbolsFromDocument doc = Some syms"
    and up: "updatePhpIndexForDocument (Some doc) st = Some st'"
  shows "case mapGet (phpWorkspaceIndexKeysByUri st') (uri doc) of
           None \<Rightarrow> symbolKeys syms = {}
         | Some ks \<Rightarrow> set ks = symbolKeys syms"
proof -
  let ?d = "deletePhpIndexForUri (uri doc) st"
  let ?acc = "foldl (addSymbol (uri doc)) (?d, []) syms"
  from updatePhpIndexForDocument_php [OF php ex, of st] up
  have k: "phpWorkspaceIndexKeysByUri st' =
             (if snd ?acc \<noteq> [] then mapSet (phpWorkspaceIndexKeysByUri ?d) (uri doc) (snd ?acc)
              else phpWorkspaceIndexKeysByUri ?d)"
    by auto
  have s: "set (snd ?acc) = symbolKeys syms"
    by (simp add: addSymbol_fold_keys)
  show ?thesis
  proof (cases "snd ?acc = []")
    case True
    with s have "symbolKeys syms = {}" by simp
    with k True show ?thesis by (simp add: deletePhpIndexForUri_keys)
  next
    case False
    with k s show ?thesis by (simp add: mapGet_mapSet)
  qed
qed

lemma update_index_after:
  assumes php: "languageId doc = ''php''" and ex: "extractPhpSymbolsFromDocument doc = Some syms"
    and up: "updatePhpIndexForDocument (Some doc) st = Some st'"
  shows "k \<notin> symbolKeys syms \<Longrightarrow>
           mapGet (phpWorkspaceIndex st') k = mapGet (phpWorkspaceIndex (deletePhpIndexForUri (uri doc) st)) k"
    and "s \<in> set syms \<Longrightarrow> key s \<noteq> [] \<Longrightarrow>
           \<exists>locs. mapGet (phpWorkspaceIndex st') (key s) = Some locs \<and> location s \<in> set locs"
proof -
  from updatePhpIndexForDocument_php [OF php ex, of st] up
  have i: "phpWorkspaceIndex st' =
             phpWorkspaceIndex (fst (foldl (addSymbol (uri doc)) (deletePhpIndexForUri (uri doc) st, []) syms))"
    by auto
  show "k \<notin> symbolKeys syms \<Longrightarrow>
           mapGet (phpWorkspaceIndex st') k = mapGet (phpWorkspaceIndex (deletePhpIndexForUri (uri doc) st)) k"
    using addSymbol_fold_index_other [of k syms "uri doc" "(deletePhpIndexForUri (uri doc) st, [])"] i
    by simp
  show "s \<in> set syms \<Longrightarrow> key s \<noteq> [] \<Longrightarrow>
           \<exists>locs. mapGet (phpWorkspaceIndex st') (key s) = Some locs \<and> location s \<in> set locs"
    using addSymbol_fold_index_present [of s syms "uri doc" "(deletePhpIndexForUri (uri doc) st, [])"] i
    by simp
qed

lemma retract_clean:
  "retract u e = Some locs \<Longrightarrow> locs \<noteq> [] \<and> (\<forall>l \<in> set locs. luri l \<noteq> u)"
  by (auto simp: retract_def split: option.splits if_splits)

section \<open>Properties of the members cache\<close>

lemma list_all_mapSet: "list_all P m \<Longrightarrow> P (k, v) \<Longrightarrow> list_all P (mapSet m k v)"
  by (induction m) auto

lemma deletePhpIndexForUri_cache:
  "phpWorkspaceMembersCache (deletePhpIndexForUri u st) = phpWorkspaceMembersCache st"
  by (simp add: deletePhpIndexForUri_def Let_def rebuildPhpClassFqnMaps_def deleteKey_fold_other
        split: option.splits)

lemma sound_newer:
  assumes "membersCacheSound cmp st" and "phpWorkspaceMembersCache st' = phpWorkspaceMembersCache st"
    and "phpWorkspaceIndexVersion st < phpWorkspaceIndexVersion st'"
  shows "membersCacheSound cmp st'"
  using assms unfolding membersCacheSound_def by (auto simp: list_all_iff)

lemma sound_delete: "membersCacheSound cmp st \<Longrightarrow> membersCacheSound cmp (deletePhpIndexForUri u st)"
proof (cases "mapGet (phpWorkspaceIndexKeysByUri st) u")
  case None
  assume "membersCacheSound cmp st"
  with None show ?thesis by (simp add: deletePhpIndexForUri_unknown)
next
  case (Some ks)
  assume s: "membersCacheSound cmp st"
  show ?thesis
    by (rule sound_newer [OF s deletePhpIndexForUri_cache])
       (simp add: deletePhpIndexForUri_version [OF Some])
qed

lemma sound_update:
  assumes s: "membersCacheSound cmp st" and u: "updatePhpIndexForDocument d st = Some st'"
  shows "membersCacheSound cmp st'"
proof (cases d)
  case None
  with u s show ?thesis by (simp add: updatePhpIndexForDocument_def)
next
  case (Some doc)
  show ?thesis
  proof (cases "languageId doc = ''php''")
    case False
    with u s Some show ?thesis by (simp add: updatePhpIndexForDocument_def)
  next
    case True
    obtain syms where ex: "extractPhpSymbolsFromDocument doc = Some syms"
      using extractPhpSymbolsFromDocument_total by blast
    from updatePhpIndexForDocument_php [OF True ex, of st] u Some
    have c: "phpWorkspaceMembersCache st' = phpWorkspaceMembersCache st"
      and v: "phpWorkspaceIndexVersion st' = phpWorkspaceIndexVersion (deletePhpIndexForUri (uri doc) st) + 1"
      by auto
    from v deletePhpIndexForUri_version_le [of st "uri doc"]
    have "phpWorkspaceIndexVersion st < phpWorkspaceIndexVersion st'" by simp
    from sound_newer [OF s c this] show ?thesis .
  qed
qed

lemma sound_members: 
  assumes s: "membersCacheSound cmp st"
  shows "membersCacheSound cmp (snd (getPhpMembersForClass cmp c st))"
proof -
  let ?k = "replaceFirst leadingBackslashesRe [] c"
  let ?v = "computePhpMembers cmp (phpWorkspaceIndex st) ?k"
  have n: "membersCacheSound cmp (st\<lparr>phpWorkspaceMembersCache :=
              mapSet (phpWorkspaceMembersCache st) ?k
                \<lparr>cachedVersion = phpWorkspaceIndexVersion st, cachedValue = ?v\<rparr>\<rparr>)"
    using s unfolding membersCacheSound_def
    by (auto intro!: list_all_mapSet)
  show ?thesis
    using s n by (auto simp: getPhpMembersForClass_def Let_def split: option.splits)
qed

lemma sound_references:
  assumes s: "membersCacheSound cmp st"
  shows "membersCacheSound cmp
           (st\<lparr>phpWorkspaceReferenceIndexBuilding := building, phpWorkspaceReferenceIndex := index,
               phpWorkspaceReferenceIndexVersion := version\<rparr>)"
  using assms by (simp add: membersCacheSound_def)

lemma reachable_sound: "reachable cmp st \<Longrightarrow> membersCacheSound cmp st"
proof (induction rule: reachable.induct)
  case initial
  show ?case by (simp add: membersCacheSound_def initialWorkspace_def)
next
  case (update st document st')
  then show ?case by (blast intro: sound_update)
next
  case (delete st uriKey)
  then show ?case by (blast intro: sound_delete)
next
  case (members st classNameOrFqn)
  then show ?case by (blast intro: sound_members)
next
  case (references st building index version)
  then show ?case by (blast intro: sound_references)
qed

lemma members_fresh:
  assumes s: "membersCacheSound cmp st"
  shows "fst (getPhpMembersForClass cmp c st) =
           (if replaceFirst leadingBackslashesRe [] c = [] then \<lparr>methods = [], properties = [], constants = []\<rparr>
            else computePhpMembers cmp (phpWorkspaceIndex st) (replaceFirst leadingBackslashesRe [] c))"
proof -
  let ?k = "replaceFirst leadingBackslashesRe [] c"
  have "cachedValue e = computePhpMembers cmp (phpWorkspaceIndex st) ?k"
    if "mapGet (phpWorkspaceMembersCache st) ?k = Some e"
      and "cachedVersion e = phpWorkspaceIndexVersion st" for e
  proof -
    from that(1) have "(?k, e) \<in> set (phpWorkspaceMembersCache st)"
      by (simp add: mapGet_def map_of_SomeD)
    with s that(2) show ?thesis
      unfolding membersCacheSound_def by (auto simp: list_all_iff)
  qed
  then show ?thesis
    by (auto simp: getPhpMembersForClass_def Let_def split: option.splits)
qed

lemma run_star_eol_None: "(run [Rx (Star P), Rx Eol] p cs i g = None) = (\<exists>c \<in> set cs. \<not> P c)"
proof (induction cs arbitrary: p i g)
  case Nil
  show ?case by simp
next
  case (Cons c cs)
  show ?case
  proof (cases "P c")
    case False
    then show ?thesis by simp
  next
    case True
    then show ?thesis
      using Cons.IH [of "Some c" "i + 1" g] by (cases "run [Rx (Star P), Rx Eol] (Some c) cs (i + 1) g") auto
  qed
qed

lemma run_star_eol: "(run [Rx (Star P), Rx Eol] p cs i g \<noteq> None) = (\<forall>c \<in> set cs. P c)"
  by (simp add: run_star_eol_None)

lemma execFrom_bol_later: "0 < i \<Longrightarrow> execFrom (Seq Bol r) p cs i = None"
  by (induction cs arbitrary: p i) auto

lemma test_constantNameRe: "test constantNameRe m = constantNameSpec m"
proof (cases m)
  case Nil
  then show ?thesis
    by (simp add: test_def matchFirst_def exec_def constantNameRe_def prevChar_def)
next
  case (Cons c cs)
  have later: "execFrom constantNameRe (Some c) cs (0 + 1) = None"
    unfolding constantNameRe_def seqs.simps by (rule execFrom_bol_later) simp
  have "(run [Rx constantNameRe] None (c # cs) 0 [] \<noteq> None) = constantNameSpec (c # cs)"
    using run_star_eol [of "\<lambda>c. isUpper c \<or> isDigit c \<or> c = CHR ''_''" "Some c" cs 1 "[]"]
    by (auto simp: constantNameRe_def)
  with later Cons show ?thesis
    by (auto simp: test_def matchFirst_def exec_def prevChar_def split: option.splits)
qed

lemma set_setAdd: "set (setAdd xs x) = insert x (set xs)"
  by (auto simp: setAdd_def)

lemma set_insertBy: "set (insertBy cmp x xs) = insert x (set xs)"
  by (induction xs) auto

lemma set_sortBy: "set (sortBy cmp xs) = set xs"
  by (induction xs) (auto simp: set_insertBy)

lemma memberStep_sets:
  "set (constants (memberStep K (pop (split K backslash)) acc k)) =
     set (constants acc) \<union> (if memberKey K k \<and> pop (split k ''::'') \<noteq> [] \<and> constantNameSpec (pop (split k ''::''))
                             then {pop (split k ''::'')} else {})"
  "set (methods (memberStep K (pop (split K backslash)) acc k)) =
     set (methods acc) \<union> (if memberKey K k \<and> pop (split k ''::'') \<noteq> [] \<and> \<not> constantNameSpec (pop (split k ''::''))
                           then {pop (split k ''::'')} else {})"
  by (auto simp: memberStep_def Let_def memberKey_def set_setAdd test_constantNameRe)

lemma memberStep_fold_sets:
  "set (constants (foldl (memberStep K (pop (split K backslash))) acc ks)) =
     set (constants acc) \<union> {m. m \<noteq> [] \<and> constantNameSpec m \<and> (\<exists>k \<in> set ks. memberKey K k \<and> m = pop (split k ''::''))}"
  "set (methods (foldl (memberStep K (pop (split K backslash))) acc ks)) =
     set (methods acc) \<union> {m. m \<noteq> [] \<and> \<not> constantNameSpec m \<and> (\<exists>k \<in> set ks. memberKey K k \<and> m = pop (split k ''::''))}"
proof (induction ks arbitrary: acc)
  case Nil
  { case 1 show ?case by simp }
  { case 2 show ?case by simp }
next
  case (Cons k ks)
  { case 1 show ?case unfolding foldl_Cons Cons.IH(1) memberStep_sets(1) by auto }
  { case 2 show ?case unfolding foldl_Cons Cons.IH(2) memberStep_sets(2) by auto }
qed

lemma computePhpMembers_sets:
  "set (constants (computePhpMembers cmp index K)) = {m \<in> membersUnder index K. constantNameSpec m}"
  "set (methods (computePhpMembers cmp index K)) = {m \<in> membersUnder index K. \<not> constantNameSpec m}"
  by (auto simp: computePhpMembers_def Let_def set_sortBy memberStep_fold_sets membersUnder_def)

section \<open>Properties of the doc-comment parser\<close>

lemma docblockLine_params:
  "params (docblockLine r l) = (case lineParam l of Some p \<Rightarrow> mapSet (params r) (fst p) (snd p) | None \<Rightarrow> params r)"
  by (auto simp: docblockLine_def lineParam_def Let_def split: option.splits)

lemma docblockLine_returns:
  "returns (docblockLine r l) =
     (case lineReturn l of Some t \<Rightarrow> (if returns r = [] then t else returns r) | None \<Rightarrow> returns r)"
  by (auto simp: docblockLine_def lineReturn_def Let_def split: option.splits)

lemma map_filter_snoc: "List.map_filter f (xs @ [x]) = List.map_filter f xs @ (case f x of None \<Rightarrow> [] | Some y \<Rightarrow> [y])"
  by (simp add: List.map_filter_def split: option.splits)

lemma fold_params:
  "mapGet (params (foldl docblockLine r ls)) name =
     (case lastParamType ls name of None \<Rightarrow> mapGet (params r) name | Some t \<Rightarrow> Some t)"
proof (induction ls rule: rev_induct)
  case Nil
  show ?case by (simp add: lastParamType_def List.map_filter_def)
next
  case (snoc l ls)
  show ?case
  proof (cases "lineParam l")
    case None
    then show ?thesis
      using snoc by (simp add: docblockLine_params lastParamType_def map_filter_snoc)
  next
    case (Some p)
    then show ?thesis
      using snoc by (simp add: docblockLine_params lastParamType_def map_filter_snoc mapGet_mapSet)
  qed
qed

lemma fold_returns:
  "returns (foldl docblockLine r ls) =
     (if returns r \<noteq> [] then returns r else firstReturnType ls)"
proof (induction ls arbitrary: r)
  case Nil
  show ?case by (simp add: firstReturnType_def List.map_filter_def)
next
  case (Cons l ls)
  show ?case
    by (cases "lineReturn l") (auto simp: Cons.IH docblockLine_returns firstReturnType_def List.map_filter_def)
qed

lemma mapGet_Nil: "mapGet [] k = None"
  by (simp add: mapGet_def)

lemma docblockTwice_parsed:
  "parsePhpDocblock docblockTwice = \<lparr>params = [(''$x'', ''string'')], returns = ''bool''\<rparr>"
  by code_simp

lemma docblockTwice_annotations:
  "List.map_filter lineParam (splitLines docblockTwice) = [(''$x'', ''int''), (''$x'', ''string'')]"
  by code_simp

lemma docblockTwice_returns:
  "List.map_filter lineReturn (splitLines docblockTwice) = [''bool'', ''array'']"
  by code_simp

lemma parsePhpDocblock_records:
  assumes "docblock \<noteq> []"
  shows "mapGet (params (parsePhpDocblock docblock)) name = lastParamType (splitLines docblock) name
       \<and> returns (parsePhpDocblock docblock) = firstReturnType (splitLines docblock)"
  using assms
  by (simp add: parsePhpDocblock_def fold_params fold_returns mapGet_Nil split: option.splits)

section \<open>Properties of the reference index\<close>

lemma deleteKey_version: "phpWorkspaceIndexVersion (deleteKey u st k) = phpWorkspaceIndexVersion st"
  by (simp add: deleteKey_def Let_def split: option.splits)

lemma deleteKey_fold_version:
  "phpWorkspaceIndexVersion (foldl (deleteKey u) st ks) = phpWorkspaceIndexVersion st"
  by (induction ks arbitrary: st) (simp_all add: deleteKey_version)

lemma addSymbol_version:
  "phpWorkspaceIndexVersion (fst (addSymbol u acc s)) = phpWorkspaceIndexVersion (fst acc)"
  by (simp add: addSymbol_def Let_def split: option.splits)

lemma addSymbol_fold_version:
  "phpWorkspaceIndexVersion (fst (foldl (addSymbol u) acc ss)) = phpWorkspaceIndexVersion (fst acc)"
  by (induction ss arbitrary: acc) (simp_all add: addSymbol_version)

lemma deletePhpIndexForUri_docs18_version:
  "phpWorkspaceIndexVersion (snd (deletePhpIndexForUri_docs18 u st)) = phpWorkspaceIndexVersion st"
  by (simp add: deletePhpIndexForUri_docs18_def Let_def deleteKey_fold_version split: option.splits)

lemma updatePhpIndexForDocument_docs18_version:
  "\<exists>r. updatePhpIndexForDocument_docs18 document st = Some r
       \<and> phpWorkspaceIndexVersion (snd r) = phpWorkspaceIndexVersion st"
proof (cases document)
  case None
  then show ?thesis by (simp add: updatePhpIndexForDocument_docs18_def)
next
  case (Some doc)
  obtain syms where x: "extractPhpSymbolsFromDocument doc = Some syms"
    using extractPhpSymbolsFromDocument_total by blast
  obtain e st1 where d: "deletePhpIndexForUri_docs18 (uri doc) st = (e, st1)"
    by (cases "deletePhpIndexForUri_docs18 (uri doc) st")
  from deletePhpIndexForUri_docs18_version [of "uri doc" st] d
  have v: "phpWorkspaceIndexVersion st1 = phpWorkspaceIndexVersion st" by simp
  show ?thesis
    using Some x d v
    by (cases e) (simp_all add: updatePhpIndexForDocument_docs18_def addSymbol_fold_version Let_def)
qed

section \<open>Version monotonicity\<close>

text \<open>
  Claim C2. The claim says that every call of \<open>updateFile\<close> or \<open>deleteFile\<close> leaves the
  version counter strictly greater, also a \<open>deleteFile\<close> on a file with no entries.
  \<open>deletePhpIndexForUri\<close> returns at once when the file has no recorded key set, before
  the counter is touched: on the empty index the version stays \<open>0\<close>.
\<close>

theorem version_monotone_counterexample:
  "\<not> phpWorkspaceIndexVersion initialWorkspace
       < phpWorkspaceIndexVersion (deletePhpIndexForUri ''file:///a.php'' initialWorkspace)"
  by (simp add: deletePhpIndexForUri_def initialWorkspace_def mapGet_def)

text \<open>
  Claim C2, amended. An update of a PHP document returns with a strictly greater version,
  whatever the content and also when it is unchanged. A delete of a file with a recorded
  key set adds one to the version. A delete of a file without one, and an update of a
  document that is not PHP, leave the whole state as it is.
\<close>

theorem version_monotone:
  "(languageId doc = ''php'' \<longrightarrow>
      (\<exists>st'. updatePhpIndexForDocument (Some doc) st = Some st'
            \<and> phpWorkspaceIndexVersion st < phpWorkspaceIndexVersion st'))
   \<and> (languageId doc \<noteq> ''php'' \<longrightarrow> updatePhpIndexForDocument (Some doc) st = Some st)
   \<and> (mapGet (phpWorkspaceIndexKeysByUri st) u \<noteq> None \<longrightarrow>
        phpWorkspaceIndexVersion (deletePhpIndexForUri u st) = phpWorkspaceIndexVersion st + 1)
   \<and> (mapGet (phpWorkspaceIndexKeysByUri st) u = None \<longrightarrow> deletePhpIndexForUri u st = st)"
proof (intro conjI impI)
  assume php: "languageId doc = ''php''"
  obtain syms where "extractPhpSymbolsFromDocument doc = Some syms"
    using extractPhpSymbolsFromDocument_total by blast
  from updatePhpIndexForDocument_php [OF php this, of st] obtain st' where
    "updatePhpIndexForDocument (Some doc) st = Some st'"
    "phpWorkspaceIndexVersion st' = phpWorkspaceIndexVersion (deletePhpIndexForUri (uri doc) st) + 1"
    by blast
  with deletePhpIndexForUri_version_le [of st "uri doc"]
  show "\<exists>st'. updatePhpIndexForDocument (Some doc) st = Some st'
            \<and> phpWorkspaceIndexVersion st < phpWorkspaceIndexVersion st'"
    by auto
next
  assume "languageId doc \<noteq> ''php''"
  then show "updatePhpIndexForDocument (Some doc) st = Some st"
    by (simp add: updatePhpIndexForDocument_def)
next
  assume "mapGet (phpWorkspaceIndexKeysByUri st) u \<noteq> None"
  then show "phpWorkspaceIndexVersion (deletePhpIndexForUri u st) = phpWorkspaceIndexVersion st + 1"
    by (auto simp: deletePhpIndexForUri_version)
next
  assume "mapGet (phpWorkspaceIndexKeysByUri st) u = None"
  then show "deletePhpIndexForUri u st = st" by (rule deletePhpIndexForUri_unknown)
qed

theorem version_monotone_witness:
  "(\<exists>st'. updatePhpIndexForDocument
            (Some \<lparr>uri = ''a.php'', languageId = ''php'', getText = ''function f() {}''\<rparr>)
            initialWorkspace = Some st'
         \<and> phpWorkspaceIndexVersion initialWorkspace < phpWorkspaceIndexVersion st')
   \<and> deletePhpIndexForUri ''a.php'' initialWorkspace = initialWorkspace
   \<and> updatePhpIndexForDocument
        (Some \<lparr>uri = ''a.php'', languageId = ''plaintext'', getText = ''function f() {}''\<rparr>)
        (initialWorkspace\<lparr>phpWorkspaceIndexKeysByUri := [(''a.php'', [''f''])]\<rparr>)
      = Some (initialWorkspace\<lparr>phpWorkspaceIndexKeysByUri := [(''a.php'', [''f''])]\<rparr>)
   \<and> phpWorkspaceIndexVersion
        (deletePhpIndexForUri ''a.php'' (initialWorkspace\<lparr>phpWorkspaceIndexKeysByUri := [(''a.php'', [''f''])]\<rparr>))
      = 1"
  using version_monotone
          [of "\<lparr>uri = ''a.php'', languageId = ''php'', getText = ''function f() {}''\<rparr>"
              initialWorkspace "''a.php''"]
        version_monotone
          [of "\<lparr>uri = ''a.php'', languageId = ''plaintext'', getText = ''function f() {}''\<rparr>"
              "initialWorkspace\<lparr>phpWorkspaceIndexKeysByUri := [(''a.php'', [''f''])]\<rparr>" "''a.php''"]
  by (simp add: initialWorkspace_def mapGet_def)

section \<open>Exact retraction\<close>

text \<open>
  Claim C1. Let a PHP file be indexed with a content whose symbols have the key set \<open>X\<close>
  and then again with a content whose symbols have the key set \<open>Y\<close>, disjoint from
  \<open>X\<close>. Both updates return. Afterwards every key of \<open>X\<close> that is still in the index
  has a non-empty list of locations, none of them in the file (a key whose list became
  empty is gone), and every key of \<open>Y\<close> is in the index with the location of its
  declaration, which lies in the file. This holds from every state of the index.
\<close>

theorem exact_retraction:
  assumes "languageId docX = ''php''" and "languageId docY = ''php''"
    and "uri docY = uri docX"
    and "extractPhpSymbolsFromDocument docX = Some symsX"
    and "extractPhpSymbolsFromDocument docY = Some symsY"
    and "symbolKeys symsX \<inter> symbolKeys symsY = {}"
  shows "\<exists>st1 st2.
           updatePhpIndexForDocument (Some docX) st = Some st1
         \<and> updatePhpIndexForDocument (Some docY) st1 = Some st2
         \<and> (\<forall>k \<in> symbolKeys symsX.
               \<forall>locs. mapGet (phpWorkspaceIndex st2) k = Some locs \<longrightarrow>
                 locs \<noteq> [] \<and> (\<forall>l \<in> set locs. luri l \<noteq> uri docX))
         \<and> (\<forall>s \<in> set symsY. key s \<noteq> [] \<longrightarrow>
               (\<exists>locs. mapGet (phpWorkspaceIndex st2) (key s) = Some locs
                      \<and> location s \<in> set locs \<and> luri (location s) = uri docX))"
proof -
  from updatePhpIndexForDocument_php [OF assms(1,4), of st] obtain st1 where
    u1: "updatePhpIndexForDocument (Some docX) st = Some st1" by blast
  from updatePhpIndexForDocument_php [OF assms(2,5), of st1] obtain st2 where
    u2: "updatePhpIndexForDocument (Some docY) st1 = Some st2" by blast
  have x: "locs \<noteq> [] \<and> (\<forall>l \<in> set locs. luri l \<noteq> uri docX)"
    if k: "k \<in> symbolKeys symsX" and g: "mapGet (phpWorkspaceIndex st2) k = Some locs" for k locs
  proof -
    from k assms(6) have "k \<notin> symbolKeys symsY" by blast
    from update_index_after(1) [OF assms(2,5) u2 this] g assms(3)
    have d: "mapGet (phpWorkspaceIndex (deletePhpIndexForUri (uri docX) st1)) k = Some locs" by simp
    from update_keys_after [OF assms(1,4) u1] k obtain ks where
      ks: "mapGet (phpWorkspaceIndexKeysByUri st1) (uri docX) = Some ks" "set ks = symbolKeys symsX"
      by (auto split: option.splits)
    from d ks k have "retract (uri docX) (mapGet (phpWorkspaceIndex st1) k) = Some locs"
      by (simp add: deletePhpIndexForUri_index)
    then show ?thesis by (rule retract_clean)
  qed
  have y: "\<exists>locs. mapGet (phpWorkspaceIndex st2) (key s) = Some locs
                 \<and> location s \<in> set locs \<and> luri (location s) = uri docX"
    if s: "s \<in> set symsY" and n: "key s \<noteq> []" for s
    using update_index_after(2) [OF assms(2,5) u2 s n]
      extractPhpSymbolsFromDocument_uri [OF assms(5) s] assms(3) by auto
  from u1 u2 x y show ?thesis by blast
qed

theorem exact_retraction_witness:
  "\<exists>st1 st2.
     updatePhpIndexForDocument
       (Some \<lparr>uri = ''a.php'', languageId = ''php'', getText = ''function f() {}''\<rparr>) initialWorkspace = Some st1
   \<and> updatePhpIndexForDocument
       (Some \<lparr>uri = ''a.php'', languageId = ''php'', getText = ''function g() {}''\<rparr>) st1 = Some st2
   \<and> (\<forall>locs. mapGet (phpWorkspaceIndex st2) ''f'' = Some locs \<longrightarrow>
         locs \<noteq> [] \<and> (\<forall>l \<in> set locs. luri l \<noteq> ''a.php''))
   \<and> (\<exists>locs. mapGet (phpWorkspaceIndex st2) ''g'' = Some locs \<and> Location ''a.php'' 9 9 \<in> set locs)"
proof -
  have x: "extractPhpSymbolsFromDocument \<lparr>uri = ''a.php'', languageId = ''php'', getText = ''function f() {}''\<rparr>
     = Some [\<lparr>key = ''f'', location = Location ''a.php'' 9 9, kind = KFunction,
              signature = Some \<lparr>label = ''f(): mixed'', documentation = None, parameters = []\<rparr>,
              classInfo = None\<rparr>]"
    by code_simp
  have y: "extractPhpSymbolsFromDocument \<lparr>uri = ''a.php'', languageId = ''php'', getText = ''function g() {}''\<rparr>
     = Some [\<lparr>key = ''g'', location = Location ''a.php'' 9 9, kind = KFunction,
              signature = Some \<lparr>label = ''g(): mixed'', documentation = None, parameters = []\<rparr>,
              classInfo = None\<rparr>]"
    by code_simp
  have d: "symbolKeys [\<lparr>key = ''f'', location = Location ''a.php'' 9 9, kind = KFunction,
              signature = Some \<lparr>label = ''f(): mixed'', documentation = None, parameters = []\<rparr>,
              classInfo = None\<rparr>]
         \<inter> symbolKeys [\<lparr>key = ''g'', location = Location ''a.php'' 9 9, kind = KFunction,
              signature = Some \<lparr>label = ''g(): mixed'', documentation = None, parameters = []\<rparr>,
              classInfo = None\<rparr>] = {}"
    by (auto simp: symbolKeys_def)
  have k: "symbolKeys [\<lparr>key = ''f'', location = Location ''a.php'' 9 9, kind = KFunction,
              signature = Some \<lparr>label = ''f(): mixed'', documentation = None, parameters = []\<rparr>,
              classInfo = None\<rparr>] = {''f''}"
    by (auto simp: symbolKeys_def)
  from exact_retraction [OF _ _ _ x y d, of initialWorkspace]
  obtain st1 st2 where
    "updatePhpIndexForDocument
       (Some \<lparr>uri = ''a.php'', languageId = ''php'', getText = ''function f() {}''\<rparr>) initialWorkspace = Some st1"
    "updatePhpIndexForDocument
       (Some \<lparr>uri = ''a.php'', languageId = ''php'', getText = ''function g() {}''\<rparr>) st1 = Some st2"
    "\<forall>locs. mapGet (phpWorkspaceIndex st2) ''f'' = Some locs \<longrightarrow>
         locs \<noteq> [] \<and> (\<forall>l \<in> set locs. luri l \<noteq> ''a.php'')"
    "\<exists>locs. mapGet (phpWorkspaceIndex st2) ''g'' = Some locs \<and> Location ''a.php'' 9 9 \<in> set locs"
    unfolding k by auto
  then show ?thesis by blast
qed

section \<open>Members of a class after an edit\<close>

text \<open>
  Claim C7. In every reachable state a member query answers what it would answer with an
  empty cache: an entry computed against an older version of the index is never served.
  In the scenario, file A is indexed with \<open>class C { public $foo; }\<close> and the members of
  \<open>C\<close> are asked for (the properties are \<open>foo\<close>, and the answer is cached under
  version 1); A is indexed again with \<open>$bar\<close> in place of \<open>$foo\<close>, and the properties
  of \<open>C\<close> are \<open>bar\<close> alone, although the cache still holds the old entry.
\<close>

theorem members_after_edit:
  "(reachable cmp st \<longrightarrow>
      fst (getPhpMembersForClass cmp c st)
        = fst (getPhpMembersForClass cmp c (st\<lparr>phpWorkspaceMembersCache := []\<rparr>)))
   \<and> (case updatePhpIndexForDocument (Some docA1) initialWorkspace of
        None \<Rightarrow> False
      | Some st1 \<Rightarrow>
          (let r1 = getPhpMembersForClass cmp ''C'' st1
           in properties (fst r1) = [''foo'']
              \<and> (case updatePhpIndexForDocument (Some docA2) (snd r1) of
                    None \<Rightarrow> False
                  | Some st3 \<Rightarrow>
                      properties (fst (getPhpMembersForClass cmp ''C'' st3)) = [''bar'']
                      \<and> map_option (\<lambda>e. (cachedVersion e, properties (cachedValue e)))
                            (mapGet (phpWorkspaceMembersCache st3) ''C'') = Some (1, [''foo''])
                      \<and> phpWorkspaceIndexVersion st3 = 3)))"
proof (intro conjI impI)
  assume "reachable cmp st"
  then have s: "membersCacheSound cmp st" by (rule reachable_sound)
  have e: "membersCacheSound cmp (st\<lparr>phpWorkspaceMembersCache := []\<rparr>)"
    by (simp add: membersCacheSound_def)
  show "fst (getPhpMembersForClass cmp c st)
          = fst (getPhpMembersForClass cmp c (st\<lparr>phpWorkspaceMembersCache := []\<rparr>))"
    by (simp add: members_fresh [OF s] members_fresh [OF e])
next
  show "case updatePhpIndexForDocument (Some docA1) initialWorkspace of
        None \<Rightarrow> False
      | Some st1 \<Rightarrow>
          (let r1 = getPhpMembersForClass cmp ''C'' st1
           in properties (fst r1) = [''foo'']
              \<and> (case updatePhpIndexForDocument (Some docA2) (snd r1) of
                    None \<Rightarrow> False
                  | Some st3 \<Rightarrow>
                      properties (fst (getPhpMembersForClass cmp ''C'' st3)) = [''bar'']
                      \<and> map_option (\<lambda>e. (cachedVersion e, properties (cachedValue e)))
                            (mapGet (phpWorkspaceMembersCache st3) ''C'') = Some (1, [''foo''])
                      \<and> phpWorkspaceIndexVersion st3 = 3))"
    by code_simp
qed

theorem members_after_edit_witness:
  "(case updatePhpIndexForDocument (Some docA1) initialWorkspace of
      None \<Rightarrow> False
    | Some st1 \<Rightarrow>
        (case updatePhpIndexForDocument (Some docA2) (snd (getPhpMembersForClass (\<lambda>a b. 0) ''C'' st1)) of
           None \<Rightarrow> False
         | Some st3 \<Rightarrow>
             map_option (\<lambda>e. (cachedVersion e, properties (cachedValue e)))
               (mapGet (phpWorkspaceMembersCache st3) ''C'') = Some (1, [''foo''])
             \<and> fst (getPhpMembersForClass (\<lambda>a b. 0) ''C'' st3)
                 = fst (getPhpMembersForClass (\<lambda>a b. 0) ''C'' (st3\<lparr>phpWorkspaceMembersCache := []\<rparr>))
             \<and> properties (fst (getPhpMembersForClass (\<lambda>a b. 0) ''C'' st3)) = [''bar'']))"
proof -
  let ?cmp = "\<lambda>(a::string) (b::string). 0::int"
  note scenario = members_after_edit [of ?cmp initialWorkspace "''C''", THEN conjunct2]
  from scenario obtain st1 where u1: "updatePhpIndexForDocument (Some docA1) initialWorkspace = Some st1"
    by (auto split: option.splits)
  from scenario u1 obtain st3 where
    u3: "updatePhpIndexForDocument (Some docA2) (snd (getPhpMembersForClass ?cmp ''C'' st1)) = Some st3"
    by (auto simp: Let_def split: option.splits)
  from scenario u1 u3 have
    stale: "map_option (\<lambda>e. (cachedVersion e, properties (cachedValue e)))
              (mapGet (phpWorkspaceMembersCache st3) ''C'') = Some (1, [''foo''])"
    and bar: "properties (fst (getPhpMembersForClass ?cmp ''C'' st3)) = [''bar'']"
    by (simp_all add: Let_def)
  have "reachable ?cmp st1"
    using reachable.initial u1 by (rule reachable.update)
  then have "reachable ?cmp (snd (getPhpMembersForClass ?cmp ''C'' st1))"
    by (rule reachable.members)
  then have r: "reachable ?cmp st3"
    using u3 by (rule reachable.update)
  from members_after_edit [of ?cmp st3 "''C''"] r
  have "fst (getPhpMembersForClass ?cmp ''C'' st3)
          = fst (getPhpMembersForClass ?cmp ''C'' (st3\<lparr>phpWorkspaceMembersCache := []\<rparr>))"
    by blast
  with u1 u3 stale bar show ?thesis by simp
qed

section \<open>Constants and methods of a class\<close>

text \<open>
  Claim C10. For every class-name query in a reachable state, the constants reported are
  exactly the member names under a \<open>Class::member\<close> key of the class that match the
  pattern \<open>^[A-Z_][A-Z0-9_]*$\<close>, and the methods reported are exactly those that do not;
  the pattern holds of the names whose first character is an upper-case letter or an
  underscore and whose other characters are upper-case letters, digits or underscores. So a
  method with an entirely upper-case name is among the constants and not among the methods.
\<close>

theorem member_classification:
  assumes "reachable cmp st" and "replaceFirst leadingBackslashesRe [] c \<noteq> []"
  shows "set (constants (fst (getPhpMembersForClass cmp c st)))
           = {m \<in> membersUnder (phpWorkspaceIndex st) (replaceFirst leadingBackslashesRe [] c). constantNameSpec m}
       \<and> set (methods (fst (getPhpMembersForClass cmp c st)))
           = {m \<in> membersUnder (phpWorkspaceIndex st) (replaceFirst leadingBackslashesRe [] c). \<not> constantNameSpec m}
       \<and> (\<forall>m. test constantNameRe m = constantNameSpec m)"
  using members_fresh [OF reachable_sound [OF assms(1)], of c] assms(2)
  by (simp add: computePhpMembers_sets test_constantNameRe)

theorem member_classification_witness:
  "{m \<in> membersUnder
          (phpWorkspaceIndex
             (case updatePhpIndexForDocument
                     (Some \<lparr>uri = ''a.php'', languageId = ''php'',
                            getText = ''class C { function RUN() {} function stop() {} }''\<rparr>)
                     initialWorkspace of
                Some s \<Rightarrow> s | None \<Rightarrow> initialWorkspace)) ''C''. constantNameSpec m} = {''RUN''}
   \<and> {m \<in> membersUnder
          (phpWorkspaceIndex
             (case updatePhpIndexForDocument
                     (Some \<lparr>uri = ''a.php'', languageId = ''php'',
                            getText = ''class C { function RUN() {} function stop() {} }''\<rparr>)
                     initialWorkspace of
                Some s \<Rightarrow> s | None \<Rightarrow> initialWorkspace)) ''C''. \<not> constantNameSpec m} = {''stop''}"
proof -
  let ?u = "updatePhpIndexForDocument
              (Some \<lparr>uri = ''a.php'', languageId = ''php'',
                     getText = ''class C { function RUN() {} function stop() {} }''\<rparr>)
              initialWorkspace"
  let ?st = "case ?u of Some s \<Rightarrow> s | None \<Rightarrow> initialWorkspace"
  have r: "reachable (\<lambda>a b. 0) ?st"
    by (cases ?u) (auto intro: reachable.initial reachable.update [OF reachable.initial])
  have k: "replaceFirst leadingBackslashesRe [] ''C'' = ''C''"
    by code_simp
  have c: "constants (fst (getPhpMembersForClass (\<lambda>a b. 0) ''C'' ?st)) = [''RUN'']"
    by code_simp
  have m: "methods (fst (getPhpMembersForClass (\<lambda>a b. 0) ''C'' ?st)) = [''stop'']"
    by code_simp
  from member_classification [OF r, of "''C''"] k c m show ?thesis by simp
qed

section \<open>Doc comments with repeated annotations\<close>

text \<open>
  Claim C8, at the input \<open>docblockTwice\<close>. Its lines annotate \<open>$x\<close> with \<open>int\<close> and then
  with \<open>string\<close>, and the return type with \<open>bool\<close> and then with \<open>array\<close>. The parser
  records \<open>string\<close> for \<open>$x\<close>, the last annotation, and \<open>bool\<close> as the return type, the
  first: every matching line assigns \<open>result.params[name]\<close> again, while the return type
  is assigned under the test \<open>!result.returns\<close>.
\<close>

theorem docblock_last_param_recorded:
  "List.map_filter lineParam (splitLines docblockTwice) = [(''$x'', ''int''), (''$x'', ''string'')]
   \<and> List.map_filter lineReturn (splitLines docblockTwice) = [''bool'', ''array'']
   \<and> mapGet (params (parsePhpDocblock docblockTwice)) ''$x'' = Some ''string''
   \<and> returns (parsePhpDocblock docblockTwice) = ''bool''"
  by (simp add: docblockTwice_parsed docblockTwice_annotations docblockTwice_returns mapGet_def)

section \<open>Class and method indexing\<close>

text \<open>
  Claim C4. Indexing the file
  \<open>namespace App; class Greeter { public function hello(string $name): string { } }\<close>
  in the empty index returns and leaves exactly the keys \<open>Greeter\<close>, \<open>App\Greeter\<close>,
  \<open>Greeter::hello\<close> and \<open>App\Greeter::hello\<close> in the index; the one signature recorded
  under \<open>Greeter::hello\<close> has the label \<open>hello(string $name): string\<close>, which contains
  \<open>string $name\<close> and ends with \<open>: string\<close>.
\<close>

theorem class_method_indexing:
  "(case updatePhpIndexForDocument (Some docGreeter) initialWorkspace of
      None \<Rightarrow> False
    | Some st \<Rightarrow>
        map fst (phpWorkspaceIndex st)
          = [''Greeter'', ''App'' @ backslash @ ''Greeter'', ''Greeter::hello'',
             ''App'' @ backslash @ ''Greeter::hello'']
        \<and> map (\<lambda>f. label (sigSignature f))
              (case mapGet (phpWorkspaceFunctionInfoByKey st) ''Greeter::hello'' of Some l \<Rightarrow> l | None \<Rightarrow> [])
            = [''hello(string $name): string''])
   \<and> jsIncludes ''hello(string $name): string'' ''string $name''
   \<and> endsWith ''hello(string $name): string'' '': string''"
  by code_simp

section \<open>A class whose body is not closed\<close>

text \<open>
  Claim C5, at the input \<open>class A { function foo() { }\<close>. The brace that opens the body
  of \<open>A\<close> has no match, so the class and its members are skipped and no class range is
  recorded; the scan for free functions then finds \<open>function foo(\<close> outside every class
  range and indexes the method under the key \<open>foo\<close> as a free function.
\<close>

theorem unbalanced_class_method_indexed:
  "indexOfFrom (getText docUnbalanced) ''{'' 0 = Some 8
   \<and> findMatchingBrace (getText docUnbalanced) 8 = None
   \<and> map_option (map (\<lambda>s. (key s, kind s, lstart (location s)))) (extractPhpSymbolsFromDocument docUnbalanced)
       = Some [(''foo'', KFunction, 19)]"
  by code_simp

section \<open>Doc-comment annotations in type inference\<close>

text \<open>
  Claim C9, at the input \<open>/** @param Foo $x */ $x = 5;\<close> with the query position at the
  end of the text. The doc comment annotates \<open>$x\<close> with \<open>Foo\<close>, the assignment is typed
  \<open>int\<close> by its shape, and the type reported for \<open>$x\<close> is \<open>int\<close>.
\<close>

theorem doc_annotation_not_reported:
  "length (getText docAnnotated) = 28
   \<and> inferPhpVariableTypes docAnnotated 28 initialWorkspace = Some [(''$x'', ''int'')]"
  by code_simp

section \<open>Local definitions and route names\<close>

text \<open>
  Claim C3, at the input \<open>docRouteThenCall\<close> with the cursor on the call \<open>f();\<close> at offset
  49, in a workspace whose route file names the route \<open>home.index\<close> and whose index holds
  an \<open>f\<close> of another file. The file declares \<open>f\<close> at offset 6, the reference under the
  cursor is the plain word \<open>f\<close> and the local search finds the declaration. The test for a
  route name runs first: it takes the name to begin after the closing quote of
  \<open>route('home.index')\<close> and to be as long as the name is, a range that holds the call,
  and the provider returns the location of the route in the route file. With the cursor on the \<open>f\<close> of the
  declaration, at offset 15, the provider returns the local definition.
\<close>

theorem route_range_covers_call:
  "drop 49 (getText docRouteThenCall) = ''f();''
   \<and> take 15 (drop 6 (getText docRouteThenCall)) = ''function f() {}''
   \<and> getLaravelRouteNameAtPosition docRouteThenCall 49 = Some ''home.index''
   \<and> getPhpReferenceAtPosition docRouteThenCall 49
       = Some (Some \<lparr>refKind = Plain, word = ''f'', classToken = [], member = []\<rparr>)
   \<and> findLocalPhpDefinition docRouteThenCall 49 \<lparr>refKind = Plain, word = ''f'', classToken = [], member = []\<rparr>
       = Some (Some (Location ''file:///app/a.php'' 6 6))
   \<and> (case updatePhpIndexForDocument (Some docOtherF) initialWorkspace of
        None \<Rightarrow> False
      | Some st \<Rightarrow>
          mapGet (phpWorkspaceIndex st) ''f'' = Some [Location ''file:///app/b.php'' 15 15]
          \<and> map_option fst
                (provideDefinition [Some docRoutes] [Some docOtherF, Some docRouteThenCall]
                   docRouteThenCall 49 initialRoutes st)
              = Some (Locations [Location ''file:///app/routes/web.php'' 38 48])
          \<and> map_option fst
                (provideDefinition [Some docRoutes] [Some docOtherF, Some docRouteThenCall]
                   docRouteThenCall 15 initialRoutes st)
              = Some (OneLocation (Location ''file:///app/a.php'' 6 6)))"
  by code_simp

section \<open>Rebuilding the reference index\<close>

text \<open>
  Claim C6, at the input \<open>docCallsG\<close> edited to \<open>docCallsGF\<close>. In the file that holds the
  reference index no call of \<open>deletePhpIndexForUri\<close> or \<open>updatePhpIndexForDocument\<close>
  changes the version of the symbol index, and every update of a PHP document returns, by
  raising the \<open>ReferenceError\<close> or without. The reference index is built for the file
  with the call \<open>g();\<close>, against version 0. The call \<open>f();\<close> is added and the file is
  indexed again: the update raises and the version is still 0. The build that follows finds
  the version it recorded and changes nothing: the reference list of \<open>f\<close> is empty, where
  the extractor finds the call at offset 11 of the file.
\<close>

theorem reindex_raises_references_stale:
  "phpWorkspaceIndexVersion (snd (deletePhpIndexForUri_docs18 uriKey st)) = phpWorkspaceIndexVersion st
   \<and> (\<exists>r. updatePhpIndexForDocument_docs18 document st = Some r
          \<and> phpWorkspaceIndexVersion (snd r) = phpWorkspaceIndexVersion st)
   \<and> (case ensurePhpWorkspaceReferenceIndex id [(id, Some docCallsG)] initialWorkspace of
        None \<Rightarrow> False
      | Some st1 \<Rightarrow>
          phpWorkspaceIndexVersion st1 = 0 \<and> phpWorkspaceReferenceIndexVersion st1 = 0
          \<and> referencesOf (phpWorkspaceReferenceIndex st1) ''fn:g'' = [Location ''file:///app/b.php'' 6 7]
          \<and> (case updatePhpIndexForDocument_docs18 (Some docCallsGF) st1 of
                None \<Rightarrow> False
              | Some r \<Rightarrow>
                  fst r = Some (ReferenceError ''rebuildPhpClassFqnMaps'')
                  \<and> phpWorkspaceIndexVersion (snd r) = 0
                  \<and> ensurePhpWorkspaceReferenceIndex id [(id, Some docCallsGF)] (snd r) = Some (snd r)
                  \<and> documentReferences docCallsGF ''fn:f'' = [Location ''file:///app/b.php'' 11 12]
                  \<and> referencesOf (phpWorkspaceReferenceIndex (snd r)) ''fn:f'' = []))"
proof (intro conjI)
  show "phpWorkspaceIndexVersion (snd (deletePhpIndexForUri_docs18 uriKey st)) = phpWorkspaceIndexVersion st"
    by (rule deletePhpIndexForUri_docs18_version)
  show "\<exists>r. updatePhpIndexForDocument_docs18 document st = Some r
          \<and> phpWorkspaceIndexVersion (snd r) = phpWorkspaceIndexVersion st"
    by (rule updatePhpIndexForDocument_docs18_version)
  show "case ensurePhpWorkspaceReferenceIndex id [(id, Some docCallsG)] initialWorkspace of
        None \<Rightarrow> False
      | Some st1 \<Rightarrow>
          phpWorkspaceIndexVersion st1 = 0 \<and> phpWorkspaceReferenceIndexVersion st1 = 0
          \<and> referencesOf (phpWorkspaceReferenceIndex st1) ''fn:g'' = [Location ''file:///app/b.php'' 6 7]
          \<and> (case updatePhpIndexForDocument_docs18 (Some docCallsGF) st1 of
                None \<Rightarrow> False
              | Some r \<Rightarrow>
                  fst r = Some (ReferenceError ''rebuildPhpClassFqnMaps'')
                  \<and> phpWorkspaceIndexVersion (snd r) = 0
                  \<and> ensurePhpWorkspaceReferenceIndex id [(id, Some docCallsGF)] (snd r) = Some (snd r)
                  \<and> documentReferences docCallsGF ''fn:f'' = [Location ''file:///app/b.php'' 11 12]
                  \<and> referencesOf (phpWorkspaceReferenceIndex (snd r)) ''fn:f'' = [])"
    by code_simp
qed

end
